theory Spec2Isabelle
  imports Complex_Main
begin

section \<open>The declaration language of \<^verbatim>\<open>src/types/index.d.ts\<close>\<close>

text \<open>
  The file \<^verbatim>\<open>src/types/index.d.ts\<close> holds no executable code: it declares the shape of
  the configuration object, of the room handle and of the stadium file. What it says is
  which members an interface has, which of them carry the \<^verbatim>\<open>?\<close> mark, and what type each
  member, parameter and result has. The declarations are therefore embedded as data: a
  type expression is a \<open>ts_type\<close>, a line of an interface is a \<open>member\<close> (a property
  signature \<^verbatim>\<open>name?: T\<close> or a method signature \<^verbatim>\<open>name?(params): T\<close>), and the second component
  of a member or parameter is \<open>True\<close> exactly when the source writes \<^verbatim>\<open>?\<close> after the name.
\<close>

datatype ts_type =
    TNumber
  | TString
  | TBoolean
  | TVoid
  | TNull
  | TAny
  | TLit string
  | TRef string
  | TTypeof string
  | TArray ts_type
  | TTuple "ts_type list"
  | TUnion "ts_type list"
  | TGeneric string "ts_type list"
  | TObject "member list"
and member =
    Prop string bool ts_type
  | Method string bool "param list" ts_type
and param =
    Param string bool ts_type

datatype decl =
    Import string
  | Interface string "string list" "member list"
  | TypeAlias string ts_type
  | Enum string "(string \<times> int) list"
  | FunctionDecl string "param list" ts_type

fun m_name :: "member \<Rightarrow> string" where
  "m_name (Prop n opt t) = n"
| "m_name (Method n opt ps r) = n"

fun m_optional :: "member \<Rightarrow> bool" where
  "m_optional (Prop n opt t) = opt"
| "m_optional (Method n opt ps r) = opt"

text \<open>The declared type of a property, and the declared result type of a method.\<close>

fun m_type :: "member \<Rightarrow> ts_type" where
  "m_type (Prop n opt t) = t"
| "m_type (Method n opt ps r) = r"

fun is_method :: "member \<Rightarrow> bool" where
  "is_method (Prop n opt t) = False"
| "is_method (Method n opt ps r) = True"

subsection \<open>The module \<^verbatim>\<open>haxball.js\<close> (lines 1 to 16)\<close>

definition RoomConfig_decl :: decl where
  "RoomConfig_decl = Interface ''RoomConfig'' [''RoomConfigObject'']
     [ Prop ''token'' False TString,
       Prop ''proxy'' True TString,
       Prop ''debug'' True TBoolean,
       Prop ''webrtc'' True (TObject
         [ Prop ''RTCPeerConnection'' False (TTypeof ''RTCPeerConnection''),
           Prop ''RTCIceCandidate'' False (TTypeof ''RTCIceCandidate''),
           Prop ''RTCSessionDescription'' False (TTypeof ''RTCSessionDescription'') ]) ]"

definition module_HBInit_decl :: decl where
  "module_HBInit_decl = FunctionDecl ''HBInit''
     [Param ''config'' False (TRef ''RoomConfig'')]
     (TGeneric ''Promise'' [TRef ''RoomObject''])"

definition haxball_js_module :: "decl list" where
  "haxball_js_module =
     [ Import ''haxball-headless-browser'', RoomConfig_decl, module_HBInit_decl ]"

subsection \<open>The ambient declarations (lines 17 to 527)\<close>

definition TeamID_decl :: decl where
  "TeamID_decl = Enum ''TeamID'' [(''Spectators'', 0), (''Red'', 1), (''Blue'', 2)]"

definition Position_decl :: decl where
  "Position_decl = Interface ''Position'' []
     [ Prop ''x'' False TNumber, Prop ''y'' False TNumber ]"

definition GeoCoordinates_decl :: decl where
  "GeoCoordinates_decl = Interface ''GeoCoordinates'' []
     [ Prop ''code'' False TString, Prop ''lat'' False TNumber, Prop ''lon'' False TNumber ]"

definition ScoresObject_decl :: decl where
  "ScoresObject_decl = Interface ''ScoresObject'' []
     [ Prop ''red'' False TNumber, Prop ''blue'' False TNumber, Prop ''time'' False TNumber,
       Prop ''scoreLimit'' False TNumber, Prop ''timeLimit'' False TNumber ]"

definition PlayerObject_decl :: decl where
  "PlayerObject_decl = Interface ''PlayerObject'' []
     [ Prop ''id'' False TNumber,
       Prop ''name'' False TString,
       Prop ''team'' False (TRef ''TeamID''),
       Prop ''admin'' False TBoolean,
       Prop ''position'' False (TUnion [TRef ''Position'', TNull]),
       Prop ''auth'' False (TUnion [TString, TNull]),
       Prop ''conn'' False TString ]"

definition DiscPropertiesObject_decl :: decl where
  "DiscPropertiesObject_decl = Interface ''DiscPropertiesObject'' []
     [ Prop ''x'' False TNumber, Prop ''y'' False TNumber,
       Prop ''xspeed'' False TNumber, Prop ''yspeed'' False TNumber,
       Prop ''xgravity'' False TNumber, Prop ''ygravity'' False TNumber,
       Prop ''radius'' False TNumber, Prop ''bCoeff'' False TNumber,
       Prop ''invMass'' False TNumber, Prop ''damping'' False TNumber,
       Prop ''color'' False TNumber, Prop ''cMask'' False TNumber,
       Prop ''cGroup'' False TNumber ]"

definition PartialDiscProperties_decl :: decl where
  "PartialDiscProperties_decl =
     TypeAlias ''PartialDiscProperties'' (TGeneric ''Partial'' [TRef ''DiscPropertiesObject''])"

definition CollisionFlagsObject_decl :: decl where
  "CollisionFlagsObject_decl = Interface ''CollisionFlagsObject'' []
     [ Prop ''ball'' False TNumber, Prop ''red'' False TNumber, Prop ''blue'' False TNumber,
       Prop ''redKO'' False TNumber, Prop ''blueKO'' False TNumber,
       Prop ''wall'' False TNumber, Prop ''all'' False TNumber,
       Prop ''kick'' False TNumber, Prop ''score'' False TNumber,
       Prop ''c0'' False TNumber, Prop ''c1'' False TNumber,
       Prop ''c2'' False TNumber, Prop ''c3'' False TNumber ]"

definition Color_decl :: decl where
  "Color_decl = TypeAlias ''Color''
     (TUnion [TLit ''transparent'', TString, TTuple [TNumber, TNumber, TNumber]])"

definition Vertex_decl :: decl where
  "Vertex_decl = Interface ''Vertex'' []
     [ Prop ''bCoef'' True TNumber,
       Prop ''cMask'' True (TArray TString),
       Prop ''cGroup'' True (TArray TString),
       Prop ''trait'' True TString ]"

definition Segment_decl :: decl where
  "Segment_decl = Interface ''Segment'' []
     [ Prop ''v0'' False TNumber,
       Prop ''v1'' False TNumber,
       Prop ''bCoef'' True TNumber,
       Prop ''curve'' True TNumber,
       Prop ''curveF'' True TNumber,
       Prop ''bias'' True TNumber,
       Prop ''vis'' True TBoolean,
       Prop ''color'' True (TRef ''Color''),
       Prop ''cMask'' True (TArray TString),
       Prop ''cGroup'' True (TArray TString),
       Prop ''trait'' True TString ]"

definition Goal_decl :: decl where
  "Goal_decl = Interface ''Goal'' []
     [ Prop ''p0'' False (TTuple [TNumber, TNumber]),
       Prop ''p1'' False (TTuple [TNumber, TNumber]),
       Prop ''team'' False (TUnion [TLit ''red'', TLit ''blue'']),
       Prop ''trait'' True TString ]"

definition Plane_decl :: decl where
  "Plane_decl = Interface ''Plane'' []
     [ Prop ''normal'' False (TTuple [TNumber, TNumber]),
       Prop ''dist'' False TNumber,
       Prop ''bCoef'' True TNumber,
       Prop ''cMask'' True (TArray TString),
       Prop ''cGroup'' True (TArray TString),
       Prop ''trait'' True TString ]"

definition Disc_decl :: decl where
  "Disc_decl = Interface ''Disc'' []
     [ Prop ''pos'' False (TTuple [TNumber, TNumber]),
       Prop ''speed'' True (TTuple [TNumber, TNumber]),
       Prop ''gravity'' True (TTuple [TNumber, TNumber]),
       Prop ''radius'' False TNumber,
       Prop ''invMass'' True TNumber,
       Prop ''damping'' True TNumber,
       Prop ''color'' True (TRef ''Color''),
       Prop ''bCoef'' True TNumber,
       Prop ''cMask'' True (TArray TString),
       Prop ''cGroup'' True (TArray TString),
       Prop ''trait'' True TString ]"

definition Joint_decl :: decl where
  "Joint_decl = Interface ''Joint'' []
     [ Prop ''d0'' False TNumber,
       Prop ''d1'' False TNumber,
       Prop ''length'' True (TUnion [TNull, TNumber, TTuple [TNumber, TNumber]]),
       Prop ''strength'' True (TUnion [TLit ''rigid'', TNumber]),
       Prop ''color'' True (TRef ''Color''),
       Prop ''trait'' True TString ]"

definition PlayerPhysics_decl :: decl where
  "PlayerPhysics_decl = Interface ''PlayerPhysics'' []
     [ Prop ''gravity'' True (TTuple [TNumber, TNumber]),
       Prop ''radius'' True TNumber,
       Prop ''invMass'' True TNumber,
       Prop ''bCoef'' True TNumber,
       Prop ''damping'' True TNumber,
       Prop ''cGroup'' True (TArray TString),
       Prop ''acceleration'' True TNumber,
       Prop ''kickingAcceleration'' True TNumber ]"

definition BackgroundObject_decl :: decl where
  "BackgroundObject_decl = Interface ''BackgroundObject'' []
     [ Prop ''type'' True (TUnion [TLit ''grass'', TLit ''hockey'', TLit ''none'']),
       Prop ''width'' True TNumber,
       Prop ''height'' True TNumber,
       Prop ''kickOffRadius'' True TNumber,
       Prop ''cornerRadius'' True TNumber,
       Prop ''goalLine'' True TNumber,
       Prop ''color'' True (TRef ''Color'') ]"

definition StadiumObject_decl :: decl where
  "StadiumObject_decl = Interface ''StadiumObject'' []
     [ Prop ''name'' False TString,
       Prop ''width'' True TNumber,
       Prop ''height'' True TNumber,
       Prop ''maxViewWidth'' True TNumber,
       Prop ''cameraFollow'' True (TUnion [TLit ''player'', TLit ''ball'']),
       Prop ''spawnDistance'' True TNumber,
       Prop ''canBeStored'' True TBoolean,
       Prop ''kickOffReset'' True (TUnion [TLit ''full'', TLit ''partial'']),
       Prop ''bg'' True (TRef ''BackgroundObject''),
       Prop ''traits'' True (TGeneric ''Record'' [TString, TAny]),
       Prop ''vertexes'' False (TArray (TRef ''Vertex'')),
       Prop ''segments'' False (TArray (TRef ''Segment'')),
       Prop ''goals'' False (TArray (TRef ''Goal'')),
       Prop ''discs'' False (TArray (TRef ''Disc'')),
       Prop ''planes'' False (TArray (TRef ''Plane'')),
       Prop ''joints'' False (TArray (TRef ''Joint'')),
       Prop ''redSpawnPoints'' True (TArray (TTuple [TNumber, TNumber])),
       Prop ''blueSpawnPoints'' True (TArray (TTuple [TNumber, TNumber])),
       Prop ''playerPhysics'' True (TRef ''PlayerPhysics''),
       Prop ''ballPhysics'' True (TUnion [TRef ''Disc'', TLit ''disc0'']) ]"

definition RoomConfigObject_decl :: decl where
  "RoomConfigObject_decl = Interface ''RoomConfigObject'' []
     [ Prop ''roomName'' True TString,
       Prop ''playerName'' True TString,
       Prop ''password'' True TString,
       Prop ''maxPlayers'' True TNumber,
       Prop ''public'' True TBoolean,
       Prop ''geo'' True (TRef ''GeoCoordinates''),
       Prop ''token'' True TString,
       Prop ''noPlayer'' True TBoolean ]"

definition InputObject_decl :: decl where
  "InputObject_decl = Interface ''InputObject'' []
     [ Prop ''up'' False TBoolean, Prop ''down'' False TBoolean,
       Prop ''left'' False TBoolean, Prop ''right'' False TBoolean,
       Prop ''shoot'' False TBoolean ]"

definition AnnouncementStyle_decl :: decl where
  "AnnouncementStyle_decl = TypeAlias ''AnnouncementStyle''
     (TUnion [TLit ''normal'', TLit ''bold'', TLit ''italic'', TLit ''small'',
              TLit ''small-bold'', TLit ''small-italic''])"

text \<open>
  The interface \<^verbatim>\<open>RoomObject\<close>, in the order of the source: the methods (lines 416 to
  461), the additions (lines 464 to 466), the property \<^verbatim>\<open>CollisionFlags\<close> (line 470) and the
  event handlers (lines 473 to 508).
\<close>

definition RoomObject_methods :: "member list" where
  "RoomObject_methods =
     [ Method ''sendChat'' False
         [Param ''message'' False TString, Param ''targetId'' True TNumber] TVoid,
       Method ''setPlayerAdmin'' False
         [Param ''playerID'' False TNumber, Param ''admin'' False TBoolean] TVoid,
       Method ''setPlayerTeam'' False
         [Param ''playerID'' False TNumber, Param ''team'' False (TRef ''TeamID'')] TVoid,
       Method ''kickPlayer'' False
         [Param ''playerID'' False TNumber, Param ''reason'' False TString,
          Param ''ban'' False TBoolean] TVoid,
       Method ''clearBan'' False [Param ''playerId'' False TNumber] TVoid,
       Method ''clearBans'' False [] TVoid,
       Method ''setScoreLimit'' False [Param ''limit'' False TNumber] TVoid,
       Method ''setTimeLimit'' False [Param ''limitInMinutes'' False TNumber] TVoid,
       Method ''setCustomStadium'' False [Param ''stadiumFileContents'' False TString] TVoid,
       Method ''setDefaultStadium'' False [Param ''stadiumName'' False TString] TVoid,
       Method ''setTeamsLock'' False [Param ''locked'' False TBoolean] TVoid,
       Method ''setTeamColors'' False
         [Param ''team'' False (TRef ''TeamID''), Param ''angle'' False TNumber,
          Param ''textColor'' False TNumber, Param ''colors'' False (TArray TNumber)] TVoid,
       Method ''startGame'' False [] TVoid,
       Method ''stopGame'' False [] TVoid,
       Method ''pauseGame'' False [Param ''pauseState'' False TBoolean] TVoid,
       Method ''getPlayer'' False [Param ''playerId'' False TNumber]
         (TUnion [TRef ''PlayerObject'', TNull]),
       Method ''getPlayerList'' False [] (TArray (TRef ''PlayerObject'')),
       Method ''getScores'' False [] (TUnion [TRef ''ScoresObject'', TNull]),
       Method ''getBallPosition'' False [] (TUnion [TRef ''Position'', TNull]),
       Method ''startRecording'' False [] TVoid,
       Method ''stopRecording'' False [] (TUnion [TRef ''Uint8Array'', TNull]),
       Method ''setPassword'' False [Param ''pass'' False (TUnion [TString, TNull])] TVoid,
       Method ''setRequireRecaptcha'' False [Param ''required'' False TBoolean] TVoid,
       Method ''reorderPlayers'' False
         [Param ''playerIdList'' False (TArray TNumber),
          Param ''moveToTop'' False TBoolean] TVoid,
       Method ''sendAnnouncement'' False
         [Param ''msg'' False TString, Param ''targetId'' True TNumber,
          Param ''color'' True TNumber, Param ''style'' True (TRef ''AnnouncementStyle''),
          Param ''sound'' True TNumber] TVoid,
       Method ''setKickRateLimit'' False
         [Param ''min'' False TNumber, Param ''rate'' False TNumber,
          Param ''burst'' False TNumber] TVoid,
       Method ''setPlayerAvatar'' False
         [Param ''playerId'' False TNumber,
          Param ''avatar'' False (TUnion [TString, TNull])] TVoid,
       Method ''setDiscProperties'' False
         [Param ''discIndex'' False TNumber,
          Param ''properties'' False (TRef ''PartialDiscProperties'')] TVoid,
       Method ''getDiscProperties'' False [Param ''discIndex'' False TNumber]
         (TUnion [TRef ''DiscPropertiesObject'', TNull]),
       Method ''setPlayerDiscProperties'' False
         [Param ''playerId'' False TNumber,
          Param ''properties'' False (TRef ''PartialDiscProperties'')] TVoid,
       Method ''getPlayerDiscProperties'' False [Param ''playerId'' False TNumber]
         (TUnion [TRef ''DiscPropertiesObject'', TNull]),
       Method ''getDiscCount'' False [] TNumber ]"

definition RoomObject_additions :: "member list" where
  "RoomObject_additions =
     [ Method ''onPlayerInput'' False
         [Param ''player'' False (TRef ''PlayerObject''),
          Param ''input'' False (TRef ''InputObject'')] TVoid,
       Method ''getInputObject'' False [Param ''playerId'' False TNumber]
         (TUnion [TRef ''InputObject'', TNull]),
       Method ''resetPositions'' False [] TVoid ]"

definition RoomObject_properties :: "member list" where
  "RoomObject_properties =
     [ Prop ''CollisionFlags'' False (TRef ''CollisionFlagsObject'') ]"

definition RoomObject_handlers :: "member list" where
  "RoomObject_handlers =
     [ Method ''onPlayerJoin'' True [Param ''player'' False (TRef ''PlayerObject'')] TVoid,
       Method ''onPlayerLeave'' True [Param ''player'' False (TRef ''PlayerObject'')] TVoid,
       Method ''onTeamVictory'' True [Param ''scores'' False (TRef ''ScoresObject'')] TVoid,
       Method ''onPlayerChat'' True
         [Param ''player'' False (TRef ''PlayerObject''), Param ''message'' False TString]
         (TUnion [TBoolean, TVoid]),
       Method ''onPlayerBallKick'' True [Param ''player'' False (TRef ''PlayerObject'')] TVoid,
       Method ''onTeamGoal'' True [Param ''team'' False (TRef ''TeamID'')] TVoid,
       Method ''onGameStart'' True
         [Param ''byPlayer'' False (TUnion [TRef ''PlayerObject'', TNull])] TVoid,
       Method ''onGameStop'' True
         [Param ''byPlayer'' False (TUnion [TRef ''PlayerObject'', TNull])] TVoid,
       Method ''onPlayerAdminChange'' True
         [Param ''changedPlayer'' False (TRef ''PlayerObject''),
          Param ''byPlayer'' False (TUnion [TRef ''PlayerObject'', TNull])] TVoid,
       Method ''onPlayerTeamChange'' True
         [Param ''changedPlayer'' False (TRef ''PlayerObject''),
          Param ''byPlayer'' False (TUnion [TRef ''PlayerObject'', TNull])] TVoid,
       Method ''onPlayerKicked'' True
         [Param ''kickedPlayer'' False (TRef ''PlayerObject''),
          Param ''reason'' False TString, Param ''ban'' False TBoolean,
          Param ''byPlayer'' False (TUnion [TRef ''PlayerObject'', TNull])] TVoid,
       Method ''onGameTick'' True [] TVoid,
       Method ''onGamePause'' True
         [Param ''byPlayer'' False (TUnion [TRef ''PlayerObject'', TNull])] TVoid,
       Method ''onGameUnpause'' True
         [Param ''byPlayer'' False (TUnion [TRef ''PlayerObject'', TNull])] TVoid,
       Method ''onPositionsReset'' True [] TVoid,
       Method ''onPlayerActivity'' True [Param ''player'' False (TRef ''PlayerObject'')] TVoid,
       Method ''onStadiumChange'' True
         [Param ''newStadiumName'' False TString,
          Param ''byPlayer'' False (TUnion [TRef ''PlayerObject'', TNull])] TVoid,
       Method ''onRoomLink'' True [Param ''url'' False TString] TVoid,
       Method ''onKickRateLimitSet'' True
         [Param ''min'' False TNumber, Param ''rate'' False TNumber,
          Param ''burst'' False TNumber,
          Param ''byPlayer'' False (TUnion [TRef ''PlayerObject'', TNull])] TVoid,
       Method ''onTeamsLockChange'' True
         [Param ''locked'' False TBoolean,
          Param ''byPlayer'' False (TUnion [TRef ''PlayerObject'', TNull])] TVoid ]"

definition RoomObject_decl :: decl where
  "RoomObject_decl = Interface ''RoomObject'' []
     (RoomObject_methods @ RoomObject_additions @ RoomObject_properties @ RoomObject_handlers)"

definition ambient_HBInit_decl :: decl where
  "ambient_HBInit_decl = FunctionDecl ''HBInit''
     [Param ''roomConfig'' False (TRef ''RoomConfigObject'')] (TRef ''RoomObject'')"

definition onHBLoaded_decl :: decl where
  "onHBLoaded_decl = FunctionDecl ''onHBLoaded'' [] TVoid"

definition ambient_decls :: "decl list" where
  "ambient_decls =
     [ TeamID_decl, Position_decl, GeoCoordinates_decl, ScoresObject_decl, PlayerObject_decl,
       DiscPropertiesObject_decl, PartialDiscProperties_decl, CollisionFlagsObject_decl,
       Color_decl, Vertex_decl, Segment_decl, Goal_decl, Plane_decl, Disc_decl, Joint_decl,
       PlayerPhysics_decl, BackgroundObject_decl, StadiumObject_decl, RoomConfigObject_decl,
       InputObject_decl, AnnouncementStyle_decl, RoomObject_decl, ambient_HBInit_decl,
       onHBLoaded_decl ]"

subsection \<open>Reading the declarations\<close>

text \<open>
  The scope of the module: its own declarations, then the ambient ones, which its first
  line imports. A name is looked up from the front, so the module's \<^verbatim>\<open>HBInit\<close> hides the
  ambient one there.
\<close>

definition module_scope :: "decl list" where
  "module_scope = haxball_js_module @ ambient_decls"

fun find_interface :: "decl list \<Rightarrow> string \<Rightarrow> (string list \<times> member list) option" where
  "find_interface [] n = None"
| "find_interface (Interface n' exts ms # ds) n =
     (if n' = n then Some (exts, ms) else find_interface ds n)"
| "find_interface (d # ds) n = find_interface ds n"

fun find_function :: "decl list \<Rightarrow> string \<Rightarrow> (param list \<times> ts_type) option" where
  "find_function [] n = None"
| "find_function (FunctionDecl n' ps r # ds) n =
     (if n' = n then Some (ps, r) else find_function ds n)"
| "find_function (d # ds) n = find_function ds n"

fun find_alias :: "decl list \<Rightarrow> string \<Rightarrow> ts_type option" where
  "find_alias [] n = None"
| "find_alias (TypeAlias n' t # ds) n = (if n' = n then Some t else find_alias ds n)"
| "find_alias (d # ds) n = find_alias ds n"

text \<open>
  The members an interface has: the ones it declares, followed by those of the interfaces
  it extends that it does not declare again (a redeclared member, such as \<^verbatim>\<open>token\<close> in
  \<^verbatim>\<open>RoomConfig\<close>, replaces the inherited one). The first argument bounds the length of the
  \<^verbatim>\<open>extends\<close> chain that is followed; \<open>members\<close> gives it the number of declarations in
  scope, which no chain without a cycle exceeds.
\<close>

fun members_of :: "nat \<Rightarrow> decl list \<Rightarrow> string \<Rightarrow> member list" where
  "members_of 0 ds n = []"
| "members_of (Suc k) ds n =
     (case find_interface ds n of
        None \<Rightarrow> []
      | Some (exts, ms) \<Rightarrow>
          ms @ filter (\<lambda>m. m_name m \<notin> set (map m_name ms))
                 (concat (map (members_of k ds) exts)))"

definition members :: "string \<Rightarrow> member list" where
  "members n = members_of (length module_scope) module_scope n"

definition find_member :: "string \<Rightarrow> string \<Rightarrow> member option" where
  "find_member i n = find (\<lambda>m. m_name m = n) (members i)"

text \<open>
  An event-handler slot of the room handle is a method member whose name starts with
  \<^verbatim>\<open>on\<close>: the twenty members under the comment \<^verbatim>\<open>Event Handlers\<close> and \<^verbatim>\<open>onPlayerInput\<close>
  among the additions.
\<close>

definition is_handler :: "member \<Rightarrow> bool" where
  "is_handler m = (is_method m \<and> take 2 (m_name m) = ''on'')"

definition handler_slots :: "member list" where
  "handler_slots = filter is_handler (members ''RoomObject'')"

text \<open>
  The custom collision flags are the members named \<^verbatim>\<open>c\<close> and a digit (the comment above
  \<^verbatim>\<open>CollisionFlagsObject\<close>: "c0, c1, c2, c3: Custom flags available for stadium creators").
\<close>

definition is_custom_flag :: "string \<Rightarrow> bool" where
  "is_custom_flag n =
     (case n of
        [c, d] \<Rightarrow> c = CHR ''c'' \<and> d \<in> set ''0123456789''
      | _ \<Rightarrow> False)"

text \<open>
  Every declaration of a function of a given name in the file, module first; and whether a
  result type is a promise.
\<close>

fun function_decls :: "decl list \<Rightarrow> string \<Rightarrow> (param list \<times> ts_type) list" where
  "function_decls [] n = []"
| "function_decls (FunctionDecl n' ps r # ds) n =
     (if n' = n then (ps, r) # function_decls ds n else function_decls ds n)"
| "function_decls (d # ds) n = function_decls ds n"

fun is_promise :: "ts_type \<Rightarrow> bool" where
  "is_promise (TGeneric g args) = (g = ''Promise'')"
| "is_promise t = False"

text \<open>
  The declared type of a member of an interface, and whether a type admits \<^verbatim>\<open>null\<close>.
\<close>

definition result_type :: "string \<Rightarrow> string \<Rightarrow> ts_type option" where
  "result_type i n = map_option m_type (find_member i n)"

fun nullable :: "ts_type \<Rightarrow> bool" where
  "nullable TNull = True"
| "nullable (TUnion ts) = (TNull \<in> set ts)"
| "nullable t = False"

section \<open>JavaScript values\<close>

text \<open>
  The values an object literal or a JSON document is made of. \<^verbatim>\<open>number\<close> is taken as a
  real number: the properties below store and compare numbers and never compute with
  them, so the special values of the floating-point format play no part.
\<close>

type_synonym number = real

datatype jsval =
    JUndefined
  | JNull
  | JBool bool
  | JNum number
  | JStr string
  | JArr "jsval list"
  | JObj "(string \<times> jsval) list"

section \<open>The integration tests\<close>

text \<open>
  Both test files register one suite with Mocha: \<^verbatim>\<open>describe\<close>, one \<^verbatim>\<open>beforeEach\<close> hook
  and two tests. What a file decides is how each test is registered (\<^verbatim>\<open>it\<close> or \<^verbatim>\<open>it.skip\<close>),
  from the environment, and what the body does. \<^verbatim>\<open>process.env\<close> maps a name to a string or
  to \<^verbatim>\<open>undefined\<close>; a string is truthy when it is not empty, and \<^verbatim>\<open>a || b\<close> is \<^verbatim>\<open>a\<close> when \<^verbatim>\<open>a\<close>
  is truthy and \<^verbatim>\<open>b\<close> otherwise.
\<close>

type_synonym env = "string \<Rightarrow> string option"

definition truthy :: "string option \<Rightarrow> bool" where
  "truthy v = (case v of None \<Rightarrow> False | Some s \<Rightarrow> s \<noteq> [])"

definition js_or :: "string option \<Rightarrow> string option \<Rightarrow> string option" where
  "js_or a b = (if truthy a then a else b)"

definition js_string :: "string option \<Rightarrow> jsval" where
  "js_string v = (case v of None \<Rightarrow> JUndefined | Some s \<Rightarrow> JStr s)"

definition token_env :: "env \<Rightarrow> string option" where
  "token_env e = js_or (e ''CI_HB_HEADLESS_TOKEN'') (e ''TEST_HB_HEADLESS_TOKEN'')"

definition proxy_env :: "env \<Rightarrow> string option" where
  "proxy_env e = js_or (e ''CI_HB_PROXY'') (e ''TEST_HB_PROXY'')"

datatype step =
    Delay nat
  | SetTimeout nat
  | SkipTest
  | Done
  | RequireUncached string
  | CallHBInit "(string \<times> jsval) list"
  | AwaitRoomLink

datatype registration = It | ItSkip

datatype test = Test registration string "step list"

record suite =
  suite_title :: string
  suite_timeout :: nat
  beforeEach :: "step list"
  tests :: "test list"

text \<open>
  The entries of the object literal passed to \<^verbatim>\<open>HBInit\<close> that do not depend on the
  environment; each test adds \<^verbatim>\<open>token\<close>, and the proxy tests \<^verbatim>\<open>proxy\<close>, in the order of
  its file.
\<close>

definition base_config :: "(string \<times> jsval) list" where
  "base_config =
     [ (''roomName'', JStr ''Haxball.JS''),
       (''maxPlayers'', JNum 16),
       (''public'', JBool False),
       (''noPlayer'', JBool True),
       (''debug'', JBool True) ]"

definition register_if :: "string option \<Rightarrow> registration" where
  "register_if v = (if truthy v then It else ItSkip)"

text \<open>\<^verbatim>\<open>src/test/room.js\<close>: the first test is registered with \<^verbatim>\<open>it\<close>, whatever the environment.\<close>

definition room_js_create_room :: "env \<Rightarrow> test" where
  "room_js_create_room e = Test It ''should create room''
     [ SetTimeout 30000, RequireUncached ''../build/index'',
       CallHBInit (base_config @ [(''token'', js_string (token_env e))]),
       AwaitRoomLink ]"

definition room_js_create_room_proxy :: "env \<Rightarrow> test" where
  "room_js_create_room_proxy e =
     Test (register_if (proxy_env e)) ''should create room (proxy)''
     (SetTimeout 30000 #
      (if e ''CI_HB_PROXY'' = Some ''1'' then [SkipTest]
       else [ RequireUncached ''../build/index'',
              CallHBInit (base_config @
                [(''token'', js_string (token_env e)), (''proxy'', js_string (proxy_env e))]),
              AwaitRoomLink ]))"

definition room_js :: "env \<Rightarrow> suite" where
  "room_js e =
     \<lparr> suite_title = ''HBInit Tests'', suite_timeout = 10000, beforeEach = [Delay 5000],
       tests = [room_js_create_room e, room_js_create_room_proxy e] \<rparr>"

text \<open>
  \<^verbatim>\<open>src/unnamed/part_000\<close>: the first test is registered with \<^verbatim>\<open>it\<close> only when a token is in
  the environment; the proxy test ends with \<^verbatim>\<open>done()\<close> when \<^verbatim>\<open>CI_HB_PROXY\<close> is \<^verbatim>\<open>1\<close>, and puts
  \<^verbatim>\<open>proxy\<close> before \<^verbatim>\<open>token\<close> in the object literal.
\<close>

definition part_000_create_room :: "env \<Rightarrow> test" where
  "part_000_create_room e = Test (register_if (token_env e)) ''should create room''
     [ SetTimeout 30000, RequireUncached ''../build/index'',
       CallHBInit (base_config @ [(''token'', js_string (token_env e))]),
       AwaitRoomLink ]"

definition part_000_create_room_proxy :: "env \<Rightarrow> test" where
  "part_000_create_room_proxy e =
     Test (register_if (proxy_env e)) ''should create room (proxy)''
     (SetTimeout 30000 #
      (if e ''CI_HB_PROXY'' = Some ''1'' then [Done]
       else [ RequireUncached ''../build/index'',
              CallHBInit (base_config @
                [(''proxy'', js_string (proxy_env e)), (''token'', js_string (token_env e))]),
              AwaitRoomLink ]))"

definition part_000 :: "env \<Rightarrow> suite" where
  "part_000 e =
     \<lparr> suite_title = ''HBInit Tests'', suite_timeout = 10000, beforeEach = [Delay 5000],
       tests = [part_000_create_room e, part_000_create_room_proxy e] \<rparr>"

subsection \<open>Running a suite\<close>

text \<open>
  Mocha runs the tests of a suite in the order of their registration. A test registered
  with \<^verbatim>\<open>it.skip\<close> is reported as pending: neither the hooks nor its body run. For a test
  registered with \<^verbatim>\<open>it\<close> the \<^verbatim>\<open>beforeEach\<close> hooks run, then the body. A body that calls
  \<^verbatim>\<open>this.skip()\<close> stops there: the steps after the call do not run and the test is reported
  as pending, as one registered with \<^verbatim>\<open>it.skip\<close> is.
\<close>

datatype event =
    Hook step
  | Body string step
  | Pending string

fun run_body :: "string \<Rightarrow> step list \<Rightarrow> event list" where
  "run_body title [] = []"
| "run_body title (SkipTest # ss) = [Body title SkipTest, Pending title]"
| "run_body title (s # ss) = Body title s # run_body title ss"

fun run_test :: "step list \<Rightarrow> test \<Rightarrow> event list" where
  "run_test hooks (Test It title body) = map Hook hooks @ run_body title body"
| "run_test hooks (Test ItSkip title body) = [Pending title]"

definition run_suite :: "suite \<Rightarrow> event list" where
  "run_suite s = concat (map (run_test (beforeEach s)) (tests s))"

text \<open>
  A test's body executes in a run when a step of it is among the events; the test is
  skipped when it is reported as pending; it calls \<^verbatim>\<open>HBInit\<close> when that step of its body is
  among the events.
\<close>

fun is_body_of :: "string \<Rightarrow> event \<Rightarrow> bool" where
  "is_body_of title (Body t s) = (t = title)"
| "is_body_of title e = False"

definition executes :: "event list \<Rightarrow> string \<Rightarrow> bool" where
  "executes evs title = list_ex (is_body_of title) evs"

definition skipped :: "event list \<Rightarrow> string \<Rightarrow> bool" where
  "skipped evs title = (Pending title \<in> set evs)"

fun is_HBInit_of :: "string \<Rightarrow> event \<Rightarrow> bool" where
  "is_HBInit_of title (Body t (CallHBInit cfg)) = (t = title)"
| "is_HBInit_of title e = False"

definition calls_HBInit :: "event list \<Rightarrow> string \<Rightarrow> bool" where
  "calls_HBInit evs title = list_ex (is_HBInit_of title) evs"

text \<open>
  The delay of \<open>ms\<close> milliseconds precedes every body: each step of a body comes right
  after the hook's delay or after an earlier step of the same body.
\<close>

datatype progress = Idle | Delayed | Inside string

fun delay_precedes :: "nat \<Rightarrow> progress \<Rightarrow> event list \<Rightarrow> bool" where
  "delay_precedes ms p [] = True"
| "delay_precedes ms p (Hook (Delay n) # evs) =
     delay_precedes ms (if n = ms then Delayed else Idle) evs"
| "delay_precedes ms p (Hook s # evs) = delay_precedes ms Idle evs"
| "delay_precedes ms p (Pending t # evs) = delay_precedes ms Idle evs"
| "delay_precedes ms p (Body t s # evs) =
     ((p = Delayed \<or> p = Inside t) \<and> delay_precedes ms (Inside t) evs)"

section \<open>The values the declarations describe\<close>

text \<open>
  The interfaces whose values the properties below speak about, as records: a member
  marked \<^verbatim>\<open>?\<close> is an \<open>option\<close>, a union with \<^verbatim>\<open>null\<close> is an \<open>option\<close>, a union of literals
  is a datatype. A field keeps the name of its member behind a tag for its interface
  (\<open>dpo_x\<close> for \<^verbatim>\<open>DiscPropertiesObject.x\<close>), since several interfaces share member names.
\<close>

datatype TeamID = Spectators | Red | Blue

fun TeamID_value :: "TeamID \<Rightarrow> int" where
  "TeamID_value Spectators = 0"
| "TeamID_value Red = 1"
| "TeamID_value Blue = 2"

record Position =
  pos_x :: number
  pos_y :: number

record PlayerObject =
  po_id :: number
  po_name :: string
  po_team :: TeamID
  po_admin :: bool
  po_position :: "Position option"
  po_auth :: "string option"
  po_conn :: string

record DiscPropertiesObject =
  dpo_x :: number
  dpo_y :: number
  dpo_xspeed :: number
  dpo_yspeed :: number
  dpo_xgravity :: number
  dpo_ygravity :: number
  dpo_radius :: number
  dpo_bCoeff :: number
  dpo_invMass :: number
  dpo_damping :: number
  dpo_color :: number
  dpo_cMask :: number
  dpo_cGroup :: number

text \<open>\<^verbatim>\<open>Partial<DiscPropertiesObject>\<close>: every member of \<^verbatim>\<open>DiscPropertiesObject\<close>, optional.\<close>

record PartialDiscProperties =
  pdp_x :: "number option"
  pdp_y :: "number option"
  pdp_xspeed :: "number option"
  pdp_yspeed :: "number option"
  pdp_xgravity :: "number option"
  pdp_ygravity :: "number option"
  pdp_radius :: "number option"
  pdp_bCoeff :: "number option"
  pdp_invMass :: "number option"
  pdp_damping :: "number option"
  pdp_color :: "number option"
  pdp_cMask :: "number option"
  pdp_cGroup :: "number option"

record InputObject =
  io_up :: bool
  io_down :: bool
  io_left :: bool
  io_right :: bool
  io_shoot :: bool

text \<open>The thirteen members of a disc, to speak about "every field" in one statement.\<close>

datatype DiscField =
    F_x | F_y | F_xspeed | F_yspeed | F_xgravity | F_ygravity | F_radius | F_bCoeff
  | F_invMass | F_damping | F_color | F_cMask | F_cGroup

fun disc_field :: "DiscField \<Rightarrow> DiscPropertiesObject \<Rightarrow> number" where
  "disc_field F_x d = dpo_x d"
| "disc_field F_y d = dpo_y d"
| "disc_field F_xspeed d = dpo_xspeed d"
| "disc_field F_yspeed d = dpo_yspeed d"
| "disc_field F_xgravity d = dpo_xgravity d"
| "disc_field F_ygravity d = dpo_ygravity d"
| "disc_field F_radius d = dpo_radius d"
| "disc_field F_bCoeff d = dpo_bCoeff d"
| "disc_field F_invMass d = dpo_invMass d"
| "disc_field F_damping d = dpo_damping d"
| "disc_field F_color d = dpo_color d"
| "disc_field F_cMask d = dpo_cMask d"
| "disc_field F_cGroup d = dpo_cGroup d"

fun partial_field :: "DiscField \<Rightarrow> PartialDiscProperties \<Rightarrow> number option" where
  "partial_field F_x p = pdp_x p"
| "partial_field F_y p = pdp_y p"
| "partial_field F_xspeed p = pdp_xspeed p"
| "partial_field F_yspeed p = pdp_yspeed p"
| "partial_field F_xgravity p = pdp_xgravity p"
| "partial_field F_ygravity p = pdp_ygravity p"
| "partial_field F_radius p = pdp_radius p"
| "partial_field F_bCoeff p = pdp_bCoeff p"
| "partial_field F_invMass p = pdp_invMass p"
| "partial_field F_damping p = pdp_damping p"
| "partial_field F_color p = pdp_color p"
| "partial_field F_cMask p = pdp_cMask p"
| "partial_field F_cGroup p = pdp_cGroup p"

text \<open>The object literal \<^verbatim>\<open>{}\<close>, and \<^verbatim>\<open>{x: v}\<close>.\<close>

definition no_properties :: PartialDiscProperties where
  "no_properties =
     \<lparr> pdp_x = None, pdp_y = None, pdp_xspeed = None, pdp_yspeed = None,
       pdp_xgravity = None, pdp_ygravity = None, pdp_radius = None, pdp_bCoeff = None,
       pdp_invMass = None, pdp_damping = None, pdp_color = None, pdp_cMask = None,
       pdp_cGroup = None \<rparr>"

definition only_x :: "number \<Rightarrow> PartialDiscProperties" where
  "only_x v = no_properties \<lparr> pdp_x := Some v \<rparr>"

subsection \<open>The room behind the handle\<close>

text \<open>
  The host implements \<^verbatim>\<open>getPlayer\<close>, \<^verbatim>\<open>getDiscProperties\<close>, \<^verbatim>\<open>getPlayerDiscProperties\<close>,
  \<^verbatim>\<open>getInputObject\<close>, \<^verbatim>\<open>setDiscProperties\<close> and \<^verbatim>\<open>setPlayerDiscProperties\<close>; \<^verbatim>\<open>src/\<close> only
  declares them. Their bodies and the state they work on follow the spec (sections 3,
  4.2 and 8): the accessors are "synchronous reads of the most recently known state" and
  "return a null/absent result when the referenced entity (player, disc) does not
  currently exist"; a mutator is "a one-way command" that returns nothing; "an update
  call never resets unspecified fields to defaults". The parameter and result types are
  those of the declarations: an identifier is a \<^verbatim>\<open>number\<close>, the result of an accessor is
  the object or \<^verbatim>\<open>null\<close>, here \<open>None\<close>.
\<close>

text \<open>
  Modelled from the spec: the state of a room, which the host keeps. The room holds its
  discs in a sequence, read by index, and for every connected player the player object,
  the player's disc when the player is on the field, and the player's last input.
\<close>

record PlayerEntry =
  pe_player :: PlayerObject
  pe_disc :: "DiscPropertiesObject option"
  pe_input :: InputObject

record RoomState =
  rs_players :: "PlayerEntry list"
  rs_discs :: "DiscPropertiesObject list"

text \<open>What a call of the handle does: it returns a value or it throws.\<close>

datatype 'a completion = Returned 'a | Threw string

text \<open>
  The position a \<^verbatim>\<open>number\<close> denotes in a sequence of length \<open>n\<close>: the number itself when it
  is a whole number from \<open>0\<close> to \<open>n - 1\<close>, and none otherwise.
\<close>

definition valid_index :: "number \<Rightarrow> nat \<Rightarrow> bool" where
  "valid_index i n = (0 \<le> i \<and> i < real n \<and> i = of_int \<lfloor>i\<rfloor>)"

text \<open>
  Modelled from the spec: the lookup of a disc by index and of a connected player by
  identifier in the host's state; "absent" is \<open>None\<close>.
\<close>

definition disc_at :: "RoomState \<Rightarrow> number \<Rightarrow> DiscPropertiesObject option" where
  "disc_at st i =
     (if valid_index i (length (rs_discs st)) then Some (rs_discs st ! nat \<lfloor>i\<rfloor>) else None)"

definition player_entry :: "RoomState \<Rightarrow> number \<Rightarrow> PlayerEntry option" where
  "player_entry st pid = find (\<lambda>e. po_id (pe_player e) = pid) (rs_players st)"

text \<open>
  Modelled from the spec: the bodies of the four accessors, absent from \<^verbatim>\<open>src/\<close>. Each is
  a read of the state that returns the entity or \<^verbatim>\<open>null\<close>.
\<close>

definition getPlayer :: "RoomState \<Rightarrow> number \<Rightarrow> PlayerObject option completion" where
  "getPlayer st pid = Returned (map_option pe_player (player_entry st pid))"

definition getDiscProperties ::
  "RoomState \<Rightarrow> number \<Rightarrow> DiscPropertiesObject option completion" where
  "getDiscProperties st i = Returned (disc_at st i)"

definition getPlayerDiscProperties ::
  "RoomState \<Rightarrow> number \<Rightarrow> DiscPropertiesObject option completion" where
  "getPlayerDiscProperties st pid =
     Returned (case player_entry st pid of None \<Rightarrow> None | Some e \<Rightarrow> pe_disc e)"

definition getInputObject :: "RoomState \<Rightarrow> number \<Rightarrow> InputObject option completion" where
  "getInputObject st pid = Returned (map_option pe_input (player_entry st pid))"

text \<open>
  Modelled from the spec: the effect of a partial update on one disc, absent from
  \<^verbatim>\<open>src/\<close>. "Partial-update variant allows setting a subset of fields while leaving others
  untouched": a member of the update that is present replaces the disc's, an absent one
  keeps it.
\<close>

definition pick :: "'a option \<Rightarrow> 'a \<Rightarrow> 'a" where
  "pick v old = (case v of None \<Rightarrow> old | Some new \<Rightarrow> new)"

definition apply_properties ::
  "DiscPropertiesObject \<Rightarrow> PartialDiscProperties \<Rightarrow> DiscPropertiesObject" where
  "apply_properties d p =
     \<lparr> dpo_x = pick (pdp_x p) (dpo_x d),
       dpo_y = pick (pdp_y p) (dpo_y d),
       dpo_xspeed = pick (pdp_xspeed p) (dpo_xspeed d),
       dpo_yspeed = pick (pdp_yspeed p) (dpo_yspeed d),
       dpo_xgravity = pick (pdp_xgravity p) (dpo_xgravity d),
       dpo_ygravity = pick (pdp_ygravity p) (dpo_ygravity d),
       dpo_radius = pick (pdp_radius p) (dpo_radius d),
       dpo_bCoeff = pick (pdp_bCoeff p) (dpo_bCoeff d),
       dpo_invMass = pick (pdp_invMass p) (dpo_invMass d),
       dpo_damping = pick (pdp_damping p) (dpo_damping d),
       dpo_color = pick (pdp_color p) (dpo_color d),
       dpo_cMask = pick (pdp_cMask p) (dpo_cMask d),
       dpo_cGroup = pick (pdp_cGroup p) (dpo_cGroup d) \<rparr>"

text \<open>
  Modelled from the spec: the bodies of \<^verbatim>\<open>setDiscProperties\<close> and
  \<^verbatim>\<open>setPlayerDiscProperties\<close>, absent from \<^verbatim>\<open>src/\<close>. The two mutators return nothing; their
  effect is the next state. A command for a disc or player that does not exist leaves the
  state as it is.
\<close>

definition setDiscProperties ::
  "RoomState \<Rightarrow> number \<Rightarrow> PartialDiscProperties \<Rightarrow> RoomState" where
  "setDiscProperties st i p =
     (case disc_at st i of
        None \<Rightarrow> st
      | Some d \<Rightarrow> st \<lparr> rs_discs := (rs_discs st) [nat \<lfloor>i\<rfloor> := apply_properties d p] \<rparr>)"

text \<open>
  Modelled from the spec: the update of the disc of the first connected player with the
  given identifier (identifiers are unique among connected players).
\<close>

fun update_player_disc ::
  "number \<Rightarrow> PartialDiscProperties \<Rightarrow> PlayerEntry list \<Rightarrow> PlayerEntry list" where
  "update_player_disc pid p [] = []"
| "update_player_disc pid p (e # es) =
     (if po_id (pe_player e) = pid
      then e \<lparr> pe_disc := map_option (\<lambda>d. apply_properties d p) (pe_disc e) \<rparr> # es
      else e # update_player_disc pid p es)"

text \<open>Modelled from the spec: the body of \<^verbatim>\<open>setPlayerDiscProperties\<close>, absent from \<^verbatim>\<open>src/\<close>.\<close>

definition setPlayerDiscProperties ::
  "RoomState \<Rightarrow> number \<Rightarrow> PartialDiscProperties \<Rightarrow> RoomState" where
  "setPlayerDiscProperties st pid p =
     st \<lparr> rs_players := update_player_disc pid p (rs_players st) \<rparr>"

subsection \<open>The stadium file\<close>

text \<open>
  \<^verbatim>\<open>Color\<close> has three forms, in the order of the declaration: the literal \<^verbatim>\<open>transparent\<close>,
  a string, and a triple of numbers.
\<close>

datatype Color = Transparent | ColorString string | RGB number number number

datatype GoalTeam = GoalRed | GoalBlue

datatype JointLength = LengthNull | LengthFixed number | LengthRange number number

datatype JointStrength = Rigid | Spring number

datatype BackgroundType = Grass | Hockey | NoBackground

datatype CameraFollow = FollowPlayer | FollowBall

datatype KickOffReset = Full | Partial

record Vertex =
  vx_bCoef :: "number option"
  vx_cMask :: "string list option"
  vx_cGroup :: "string list option"
  vx_trait :: "string option"

record Segment =
  sg_v0 :: number
  sg_v1 :: number
  sg_bCoef :: "number option"
  sg_curve :: "number option"
  sg_curveF :: "number option"
  sg_bias :: "number option"
  sg_vis :: "bool option"
  sg_color :: "Color option"
  sg_cMask :: "string list option"
  sg_cGroup :: "string list option"
  sg_trait :: "string option"

record Goal =
  gl_p0 :: "number \<times> number"
  gl_p1 :: "number \<times> number"
  gl_team :: GoalTeam
  gl_trait :: "string option"

record Plane =
  pl_normal :: "number \<times> number"
  pl_dist :: number
  pl_bCoef :: "number option"
  pl_cMask :: "string list option"
  pl_cGroup :: "string list option"
  pl_trait :: "string option"

record Disc =
  dc_pos :: "number \<times> number"
  dc_speed :: "(number \<times> number) option"
  dc_gravity :: "(number \<times> number) option"
  dc_radius :: number
  dc_invMass :: "number option"
  dc_damping :: "number option"
  dc_color :: "Color option"
  dc_bCoef :: "number option"
  dc_cMask :: "string list option"
  dc_cGroup :: "string list option"
  dc_trait :: "string option"

record Joint =
  jt_d0 :: number
  jt_d1 :: number
  jt_length :: "JointLength option"
  jt_strength :: "JointStrength option"
  jt_color :: "Color option"
  jt_trait :: "string option"

record PlayerPhysics =
  pp_gravity :: "(number \<times> number) option"
  pp_radius :: "number option"
  pp_invMass :: "number option"
  pp_bCoef :: "number option"
  pp_damping :: "number option"
  pp_cGroup :: "string list option"
  pp_acceleration :: "number option"
  pp_kickingAcceleration :: "number option"

record BackgroundObject =
  bg_type :: "BackgroundType option"
  bg_width :: "number option"
  bg_height :: "number option"
  bg_kickOffRadius :: "number option"
  bg_cornerRadius :: "number option"
  bg_goalLine :: "number option"
  bg_color :: "Color option"

datatype BallPhysics = BallDisc Disc | Disc0

record StadiumObject =
  so_name :: string
  so_width :: "number option"
  so_height :: "number option"
  so_maxViewWidth :: "number option"
  so_cameraFollow :: "CameraFollow option"
  so_spawnDistance :: "number option"
  so_canBeStored :: "bool option"
  so_kickOffReset :: "KickOffReset option"
  so_bg :: "BackgroundObject option"
  so_traits :: "(string \<times> jsval) list option"
  so_vertexes :: "Vertex list"
  so_segments :: "Segment list"
  so_goals :: "Goal list"
  so_discs :: "Disc list"
  so_planes :: "Plane list"
  so_joints :: "Joint list"
  so_redSpawnPoints :: "(number \<times> number) list option"
  so_blueSpawnPoints :: "(number \<times> number) list option"
  so_playerPhysics :: "PlayerPhysics option"
  so_ballPhysics :: "BallPhysics option"

text \<open>
  Modelled from the spec: the validation a stadium passes when it is loaded, which the
  host performs and \<^verbatim>\<open>src/\<close> does not hold (the declarations give \<^verbatim>\<open>v0\<close>, \<^verbatim>\<open>v1\<close>, \<^verbatim>\<open>d0\<close> and
  \<^verbatim>\<open>d1\<close> the type \<^verbatim>\<open>number\<close> and nothing more). The spec (sections 3 and 8): "indices
  referenced by Segments (v0/v1 into vertexes) and Joints (d0/d1 into discs) must be valid
  positions within their respective sequences; violating this is a load-time error", and
  "a schema validator must reject out-of-range indices". The validator walks the segments,
  then the joints, and reports the first one with an index out of range, by its position.
\<close>

datatype load_error = SegmentVertexOutOfRange nat | JointDiscOutOfRange nat

definition segment_in_range :: "nat \<Rightarrow> Segment \<Rightarrow> bool" where
  "segment_in_range n g = (valid_index (sg_v0 g) n \<and> valid_index (sg_v1 g) n)"

definition joint_in_range :: "nat \<Rightarrow> Joint \<Rightarrow> bool" where
  "joint_in_range n j = (valid_index (jt_d0 j) n \<and> valid_index (jt_d1 j) n)"

text \<open>Modelled from the spec: the check of the segments, then of the joints, in order.\<close>

fun check_segments :: "nat \<Rightarrow> nat \<Rightarrow> Segment list \<Rightarrow> load_error option" where
  "check_segments n k [] = None"
| "check_segments n k (g # gs) =
     (if segment_in_range n g then check_segments n (Suc k) gs
      else Some (SegmentVertexOutOfRange k))"

fun check_joints :: "nat \<Rightarrow> nat \<Rightarrow> Joint list \<Rightarrow> load_error option" where
  "check_joints n k [] = None"
| "check_joints n k (j # js) =
     (if joint_in_range n j then check_joints n (Suc k) js
      else Some (JointDiscOutOfRange k))"

text \<open>
  Modelled from the spec: the validator of a stadium at load time, absent from \<^verbatim>\<open>src/\<close>.
  It accepts the stadium unchanged or rejects it with the first error.
\<close>

definition validate_stadium :: "StadiumObject \<Rightarrow> load_error + StadiumObject" where
  "validate_stadium s =
     (case check_segments (length (so_vertexes s)) 0 (so_segments s) of
        Some e \<Rightarrow> Inl e
      | None \<Rightarrow>
          (case check_joints (length (so_discs s)) 0 (so_joints s) of
             Some e \<Rightarrow> Inl e
           | None \<Rightarrow> Inr s))"

text \<open>
  Modelled from the spec: writing a colour into the serialized stadium and reading it
  back, which \<^verbatim>\<open>src/\<close> does not hold (\<^verbatim>\<open>setCustomStadium\<close> takes the file's text). The spec
  (sections 4.3 and 8): "Color accepts the polymorphic forms {"transparent", hex-string,
  RGB-triplet}" and "Color fields MUST accept and round-trip all three forms". A colour is
  written as the JSON value of its form and read by the form of the value: the literal
  first, then any other string, then an array of three numbers.
\<close>

fun write_color :: "Color \<Rightarrow> jsval" where
  "write_color Transparent = JStr ''transparent''"
| "write_color (ColorString s) = JStr s"
| "write_color (RGB r g b) = JArr [JNum r, JNum g, JNum b]"

text \<open>
  Modelled from the spec: reading a colour back from its JSON value, absent from \<^verbatim>\<open>src/\<close>.
\<close>

fun read_color :: "jsval \<Rightarrow> Color option" where
  "read_color (JStr s) = Some (if s = ''transparent'' then Transparent else ColorString s)"
| "read_color (JArr [JNum r, JNum g, JNum b]) = Some (RGB r g b)"
| "read_color v = None"

definition is_hex_digit :: "char \<Rightarrow> bool" where
  "is_hex_digit c = (c \<in> set ''0123456789abcdefABCDEF'')"

definition is_hex6 :: "string \<Rightarrow> bool" where
  "is_hex6 s = (length s = 6 \<and> list_all is_hex_digit s)"

text \<open>The three forms of the claim: the string of a colour is six hexadecimal digits.\<close>

fun color_form :: "Color \<Rightarrow> bool" where
  "color_form Transparent = True"
| "color_form (ColorString s) = is_hex6 s"
| "color_form (RGB r g b) = True"

text \<open>The members of the stadium's interfaces whose declared type is \<^verbatim>\<open>Color\<close>.\<close>

definition stadium_interfaces :: "string list" where
  "stadium_interfaces =
     [ ''Vertex'', ''Segment'', ''Goal'', ''Plane'', ''Disc'', ''Joint'', ''PlayerPhysics'',
       ''BackgroundObject'', ''StadiumObject'' ]"

definition color_members :: "(string \<times> member) list" where
  "color_members =
     concat (map (\<lambda>i. map (Pair i) (filter (\<lambda>m. m_type m = TRef ''Color'') (members i)))
               stadium_interfaces)"

section \<open>Example values\<close>

text \<open>
  A room with two discs and one player on the field, a stadium with two vertexes, one
  segment, two discs and one joint, and the same stadium with the segment's \<^verbatim>\<open>v1\<close> out of
  range. The properties below are instantiated at them.
\<close>

definition example_disc :: DiscPropertiesObject where
  "example_disc =
     \<lparr> dpo_x = 0, dpo_y = 0, dpo_xspeed = 1, dpo_yspeed = 2, dpo_xgravity = 0,
       dpo_ygravity = 0, dpo_radius = 10, dpo_bCoeff = 1 / 2, dpo_invMass = 1,
       dpo_damping = 99 / 100, dpo_color = 16777215, dpo_cMask = 63, dpo_cGroup = 1 \<rparr>"

definition example_player :: PlayerObject where
  "example_player =
     \<lparr> po_id = 1, po_name = ''host'', po_team = Red, po_admin = True,
       po_position = Some \<lparr> pos_x = 0, pos_y = 0 \<rparr>, po_auth = None, po_conn = ''c0'' \<rparr>"

definition example_room :: RoomState where
  "example_room =
     \<lparr> rs_players =
         [ \<lparr> pe_player = example_player, pe_disc = Some example_disc,
             pe_input = \<lparr> io_up = False, io_down = False, io_left = False,
                          io_right = False, io_shoot = False \<rparr> \<rparr> ],
       rs_discs = [example_disc, example_disc \<lparr> dpo_x := 100 \<rparr>] \<rparr>"

definition example_vertex :: Vertex where
  "example_vertex =
     \<lparr> vx_bCoef = Some 1, vx_cMask = Some [''ball''], vx_cGroup = None, vx_trait = None \<rparr>"

definition example_segment :: Segment where
  "example_segment =
     \<lparr> sg_v0 = 0, sg_v1 = 1, sg_bCoef = None, sg_curve = None, sg_curveF = None,
       sg_bias = None, sg_vis = Some True, sg_color = Some (ColorString ''FF0000''),
       sg_cMask = None, sg_cGroup = None, sg_trait = None \<rparr>"

definition example_stadium_disc :: Disc where
  "example_stadium_disc =
     \<lparr> dc_pos = (0, 0), dc_speed = None, dc_gravity = None, dc_radius = 10,
       dc_invMass = None, dc_damping = None, dc_color = Some (RGB 0 200 0), dc_bCoef = None,
       dc_cMask = None, dc_cGroup = None, dc_trait = None \<rparr>"

definition example_joint :: Joint where
  "example_joint =
     \<lparr> jt_d0 = 0, jt_d1 = 1, jt_length = Some (LengthRange 10 20), jt_strength = Some Rigid,
       jt_color = Some Transparent, jt_trait = None \<rparr>"

definition example_stadium :: StadiumObject where
  "example_stadium =
     \<lparr> so_name = ''Example'', so_width = Some 420, so_height = Some 200,
       so_maxViewWidth = None, so_cameraFollow = None, so_spawnDistance = None,
       so_canBeStored = None, so_kickOffReset = None, so_bg = None, so_traits = None,
       so_vertexes = [example_vertex, example_vertex],
       so_segments = [example_segment],
       so_goals = [],
       so_discs = [example_stadium_disc, example_stadium_disc],
       so_planes = [],
       so_joints = [example_joint],
       so_redSpawnPoints = None, so_blueSpawnPoints = None, so_playerPhysics = None,
       so_ballPhysics = Some Disc0 \<rparr>"

definition bad_stadium :: StadiumObject where
  "bad_stadium = example_stadium \<lparr> so_segments := [example_segment \<lparr> sg_v1 := 2 \<rparr>] \<rparr>"

definition example_background :: BackgroundObject where
  "example_background =
     \<lparr> bg_type = Some Grass, bg_width = Some 370, bg_height = Some 170,
       bg_kickOffRadius = Some 75, bg_cornerRadius = Some 0, bg_goalLine = None,
       bg_color = Some (ColorString ''718C5A'') \<rparr>"

section \<open>Properties of the declarations\<close>

text \<open>
  Claim C6. The configuration type recognizes exactly the options \<^verbatim>\<open>roomName\<close>,
  \<^verbatim>\<open>playerName\<close>, \<^verbatim>\<open>password\<close>, \<^verbatim>\<open>maxPlayers\<close>, \<^verbatim>\<open>public\<close>, \<^verbatim>\<open>geo\<close>, \<^verbatim>\<open>token\<close>, \<^verbatim>\<open>noPlayer\<close>,
  \<^verbatim>\<open>proxy\<close>, \<^verbatim>\<open>debug\<close> and \<^verbatim>\<open>webrtc\<close>. In \<^verbatim>\<open>RoomConfig\<close>, the type of the parameter of the
  module's \<^verbatim>\<open>HBInit\<close>, \<^verbatim>\<open>token\<close> is required (it is the only required member) and \<^verbatim>\<open>proxy\<close>,
  \<^verbatim>\<open>debug\<close> and \<^verbatim>\<open>webrtc\<close> are optional; every member of the base \<^verbatim>\<open>RoomConfigObject\<close> is
  optional.
\<close>

theorem RoomConfig_options:
  "set (map m_name (members ''RoomConfig'')) =
     set [''roomName'', ''playerName'', ''password'', ''maxPlayers'', ''public'', ''geo'',
          ''token'', ''noPlayer'', ''proxy'', ''debug'', ''webrtc'']
   \<and> distinct (map m_name (members ''RoomConfig''))
   \<and> map m_name (filter (\<lambda>m. \<not> m_optional m) (members ''RoomConfig'')) = [''token'']
   \<and> map_option m_optional (find_member ''RoomConfig'' ''proxy'') = Some True
   \<and> map_option m_optional (find_member ''RoomConfig'' ''debug'') = Some True
   \<and> map_option m_optional (find_member ''RoomConfig'' ''webrtc'') = Some True
   \<and> map m_name (members ''RoomConfigObject'') =
       [''roomName'', ''playerName'', ''password'', ''maxPlayers'', ''public'', ''geo'',
        ''token'', ''noPlayer'']
   \<and> list_all m_optional (members ''RoomConfigObject'')
   \<and> map fst (function_decls haxball_js_module ''HBInit'') =
       [[Param ''config'' False (TRef ''RoomConfig'')]]"
  by (intro conjI; code_simp)

text \<open>
  Claim C10. The type \<^verbatim>\<open>Vertex\<close> has the optional members \<^verbatim>\<open>bCoef\<close>, \<^verbatim>\<open>cMask\<close>, \<^verbatim>\<open>cGroup\<close> and
  \<^verbatim>\<open>trait\<close> and no others: it declares no \<^verbatim>\<open>x\<close> and no \<^verbatim>\<open>y\<close>. The entries of a stadium's
  \<^verbatim>\<open>vertexes\<close> have this type, and a segment refers to them by the numbers \<^verbatim>\<open>v0\<close> and \<^verbatim>\<open>v1\<close>.
\<close>

theorem Vertex_without_coordinates:
  "map m_name (members ''Vertex'') = [''bCoef'', ''cMask'', ''cGroup'', ''trait'']
   \<and> list_all m_optional (members ''Vertex'')
   \<and> find_member ''Vertex'' ''x'' = None
   \<and> find_member ''Vertex'' ''y'' = None
   \<and> find_member ''StadiumObject'' ''vertexes'' =
       Some (Prop ''vertexes'' False (TArray (TRef ''Vertex'')))
   \<and> find_member ''Segment'' ''v0'' = Some (Prop ''v0'' False TNumber)
   \<and> find_member ''Segment'' ''v1'' = Some (Prop ''v1'' False TNumber)"
  by (intro conjI; code_simp)

text \<open>
  Claim C8, as the declarations have it. The collision-flags table of the room handle is
  a required property whose type is a fixed set of thirteen named numbers: \<^verbatim>\<open>ball\<close>, \<^verbatim>\<open>red\<close>,
  \<^verbatim>\<open>blue\<close>, \<^verbatim>\<open>redKO\<close>, \<^verbatim>\<open>blueKO\<close>, \<^verbatim>\<open>wall\<close>, \<^verbatim>\<open>all\<close>, \<^verbatim>\<open>kick\<close> and \<^verbatim>\<open>score\<close>, and exactly four
  custom slots \<^verbatim>\<open>c0\<close>, \<^verbatim>\<open>c1\<close>, \<^verbatim>\<open>c2\<close> and \<^verbatim>\<open>c3\<close>. Each has the type \<^verbatim>\<open>number\<close> of a disc's
  \<^verbatim>\<open>cMask\<close> and \<^verbatim>\<open>cGroup\<close>.
\<close>

theorem CollisionFlags_table:
  "map m_name (members ''CollisionFlagsObject'') =
     [''ball'', ''red'', ''blue'', ''redKO'', ''blueKO'', ''wall'', ''all'', ''kick'', ''score'',
      ''c0'', ''c1'', ''c2'', ''c3'']
   \<and> filter is_custom_flag (map m_name (members ''CollisionFlagsObject'')) =
       [''c0'', ''c1'', ''c2'', ''c3'']
   \<and> list_all (\<lambda>m. \<not> is_method m \<and> \<not> m_optional m \<and> m_type m = TNumber)
         (members ''CollisionFlagsObject'')
   \<and> find_member ''RoomObject'' ''CollisionFlags'' =
       Some (Prop ''CollisionFlags'' False (TRef ''CollisionFlagsObject''))
   \<and> find_member ''DiscPropertiesObject'' ''cMask'' = Some (Prop ''cMask'' False TNumber)
   \<and> find_member ''DiscPropertiesObject'' ''cGroup'' = Some (Prop ''cGroup'' False TNumber)"
  by (intro conjI; code_simp)

text \<open>
  The table is not the ten names of the claim: \<^verbatim>\<open>redKO\<close> is a member of it, is none of
  the six standard names the claim lists, and is not a custom slot.
\<close>

theorem CollisionFlags_not_ten:
  "set (map m_name (members ''CollisionFlagsObject'')) \<noteq>
     set [''ball'', ''red'', ''blue'', ''wall'', ''kick'', ''score'', ''c0'', ''c1'', ''c2'', ''c3'']
   \<and> ''redKO'' \<in> set (map m_name (members ''CollisionFlagsObject''))
   \<and> ''redKO'' \<notin> set [''ball'', ''red'', ''blue'', ''wall'', ''kick'', ''score'']
   \<and> \<not> is_custom_flag ''redKO''"
  by (intro conjI; code_simp)

text \<open>
  Claim C5, evaluated on the declarations. The room handle has twenty-one event-handler
  slots. Twenty are optional; \<^verbatim>\<open>onPlayerInput\<close> is declared without \<^verbatim>\<open>?\<close>, so it is the one
  required slot. \<^verbatim>\<open>onPlayerChat\<close> is the only slot whose result type is not \<^verbatim>\<open>void\<close>: it is
  \<^verbatim>\<open>boolean | void\<close>.
\<close>

theorem onPlayerInput_required:
  "map m_name handler_slots =
     [''onPlayerInput'', ''onPlayerJoin'', ''onPlayerLeave'', ''onTeamVictory'',
      ''onPlayerChat'', ''onPlayerBallKick'', ''onTeamGoal'', ''onGameStart'',
      ''onGameStop'', ''onPlayerAdminChange'', ''onPlayerTeamChange'',
      ''onPlayerKicked'', ''onGameTick'', ''onGamePause'', ''onGameUnpause'',
      ''onPositionsReset'', ''onPlayerActivity'', ''onStadiumChange'',
      ''onRoomLink'', ''onKickRateLimitSet'', ''onTeamsLockChange'']
   \<and> filter (\<lambda>m. \<not> m_optional m) handler_slots =
       [Method ''onPlayerInput'' False
          [Param ''player'' False (TRef ''PlayerObject''),
           Param ''input'' False (TRef ''InputObject'')] TVoid]
   \<and> map (\<lambda>m. (m_name m, m_type m)) (filter (\<lambda>m. m_type m \<noteq> TVoid) handler_slots) =
       [(''onPlayerChat'', TUnion [TBoolean, TVoid])]"
  by (intro conjI; code_simp)

text \<open>
  Claim C3, as the declarations have it. The file declares \<^verbatim>\<open>HBInit\<close> twice. The one the
  module \<^verbatim>\<open>haxball.js\<close> exports, which is the one a name lookup in the module finds, takes a
  \<^verbatim>\<open>RoomConfig\<close> and has the result type \<^verbatim>\<open>Promise<RoomObject>\<close>, a promise and not the room
  object itself. The ambient one takes a \<^verbatim>\<open>RoomConfigObject\<close> and has the result type
  \<^verbatim>\<open>RoomObject\<close>.
\<close>

theorem HBInit_declarations:
  "find_function haxball_js_module ''HBInit'' =
     Some ([Param ''config'' False (TRef ''RoomConfig'')],
           TGeneric ''Promise'' [TRef ''RoomObject''])
   \<and> find_function module_scope ''HBInit'' = find_function haxball_js_module ''HBInit''
   \<and> is_promise (TGeneric ''Promise'' [TRef ''RoomObject''])
   \<and> TGeneric ''Promise'' [TRef ''RoomObject''] \<noteq> TRef ''RoomObject''
   \<and> function_decls module_scope ''HBInit'' =
       [ ([Param ''config'' False (TRef ''RoomConfig'')],
          TGeneric ''Promise'' [TRef ''RoomObject'']),
         ([Param ''roomConfig'' False (TRef ''RoomConfigObject'')], TRef ''RoomObject'') ]"
  by (intro conjI; code_simp)

text \<open>
  Not every declaration of \<^verbatim>\<open>HBInit\<close> returns a promise: the ambient one returns the room
  object.
\<close>

theorem ambient_HBInit_synchronous:
  "\<not> list_all (\<lambda>(ps, r). is_promise r) (function_decls module_scope ''HBInit'')
   \<and> find_function ambient_decls ''HBInit'' =
       Some ([Param ''roomConfig'' False (TRef ''RoomConfigObject'')], TRef ''RoomObject'')
   \<and> \<not> is_promise (TRef ''RoomObject'')"
  by (intro conjI; code_simp)

section \<open>Properties of the integration tests\<close>

lemma truthy_js_or: "truthy (js_or a b) = (truthy a \<or> truthy b)"
  by (simp add: js_or_def)

lemma run_test_register_if:
  "run_test hooks (Test (register_if v) title body) =
     (if truthy v then map Hook hooks @ run_body title body else [Pending title])"
  by (simp add: register_if_def)

text \<open>
  Claim C9, as the two files have it. In both files the delay of 5000 milliseconds
  precedes every test body that executes. The body of the proxy test executes exactly
  when \<^verbatim>\<open>CI_HB_PROXY\<close> or \<^verbatim>\<open>TEST_HB_PROXY\<close> is a non-empty string, and the test is skipped
  otherwise; it calls \<^verbatim>\<open>HBInit\<close> exactly when, moreover, \<^verbatim>\<open>CI_HB_PROXY\<close> is not \<^verbatim>\<open>1\<close>. When
  \<^verbatim>\<open>CI_HB_PROXY\<close> is \<^verbatim>\<open>1\<close> the body stops after setting its timeout: in \<^verbatim>\<open>src/test/room.js\<close>
  by \<^verbatim>\<open>this.skip()\<close>, so the test is skipped there too, in \<^verbatim>\<open>src/unnamed/part_000\<close> by
  \<^verbatim>\<open>done()\<close>, so the test is not skipped. The room-creation test executes, and calls
  \<^verbatim>\<open>HBInit\<close>, exactly when \<^verbatim>\<open>CI_HB_HEADLESS_TOKEN\<close> or \<^verbatim>\<open>TEST_HB_HEADLESS_TOKEN\<close> is a
  non-empty string, and is skipped otherwise, in \<^verbatim>\<open>src/unnamed/part_000\<close>; in
  \<^verbatim>\<open>src/test/room.js\<close> it always executes and calls \<^verbatim>\<open>HBInit\<close>, and is never skipped.
\<close>

theorem test_registration_by_environment:
  "delay_precedes 5000 Idle (run_suite (room_js e))
   \<and> delay_precedes 5000 Idle (run_suite (part_000 e))
   \<and> executes (run_suite (part_000 e)) ''should create room'' =
       (truthy (e ''CI_HB_HEADLESS_TOKEN'') \<or> truthy (e ''TEST_HB_HEADLESS_TOKEN''))
   \<and> calls_HBInit (run_suite (part_000 e)) ''should create room'' =
       (truthy (e ''CI_HB_HEADLESS_TOKEN'') \<or> truthy (e ''TEST_HB_HEADLESS_TOKEN''))
   \<and> skipped (run_suite (part_000 e)) ''should create room'' =
       (\<not> executes (run_suite (part_000 e)) ''should create room'')
   \<and> executes (run_suite (part_000 e)) ''should create room (proxy)'' =
       (truthy (e ''CI_HB_PROXY'') \<or> truthy (e ''TEST_HB_PROXY''))
   \<and> calls_HBInit (run_suite (part_000 e)) ''should create room (proxy)'' =
       ((truthy (e ''CI_HB_PROXY'') \<or> truthy (e ''TEST_HB_PROXY''))
        \<and> e ''CI_HB_PROXY'' \<noteq> Some ''1'')
   \<and> skipped (run_suite (part_000 e)) ''should create room (proxy)'' =
       (\<not> executes (run_suite (part_000 e)) ''should create room (proxy)'')
   \<and> executes (run_suite (room_js e)) ''should create room (proxy)'' =
       (truthy (e ''CI_HB_PROXY'') \<or> truthy (e ''TEST_HB_PROXY''))
   \<and> calls_HBInit (run_suite (room_js e)) ''should create room (proxy)'' =
       ((truthy (e ''CI_HB_PROXY'') \<or> truthy (e ''TEST_HB_PROXY''))
        \<and> e ''CI_HB_PROXY'' \<noteq> Some ''1'')
   \<and> skipped (run_suite (room_js e)) ''should create room (proxy)'' =
       (if truthy (e ''CI_HB_PROXY'') \<or> truthy (e ''TEST_HB_PROXY'')
        then e ''CI_HB_PROXY'' = Some ''1'' else True)
   \<and> executes (run_suite (room_js e)) ''should create room''
   \<and> calls_HBInit (run_suite (room_js e)) ''should create room''
   \<and> \<not> skipped (run_suite (room_js e)) ''should create room''"
proof -
  have t: "truthy (token_env e) =
      (truthy (e ''CI_HB_HEADLESS_TOKEN'') \<or> truthy (e ''TEST_HB_HEADLESS_TOKEN''))"
    by (simp add: token_env_def truthy_js_or)
  have p: "truthy (proxy_env e) = (truthy (e ''CI_HB_PROXY'') \<or> truthy (e ''TEST_HB_PROXY''))"
    by (simp add: proxy_env_def truthy_js_or)
  show ?thesis
    unfolding t [symmetric] p [symmetric]
    by (cases "truthy (token_env e)"; cases "truthy (proxy_env e)";
        cases "e ''CI_HB_PROXY'' = Some ''1''";
        simp add: run_suite_def room_js_def part_000_def room_js_create_room_def
          room_js_create_room_proxy_def part_000_create_room_def
          part_000_create_room_proxy_def run_test_register_if executes_def skipped_def
          calls_HBInit_def base_config_def)
qed

text \<open>
  With \<^verbatim>\<open>CI_HB_PROXY\<close> set to \<^verbatim>\<open>1\<close> and nothing else: in both files the body of the proxy
  test executes and does not call \<^verbatim>\<open>HBInit\<close>; the test is skipped in \<^verbatim>\<open>src/test/room.js\<close>
  and not in \<^verbatim>\<open>src/unnamed/part_000\<close>, whose room-creation test is skipped for want of a
  token.
\<close>

theorem test_registration_by_environment_witness:
  "truthy ((Map.empty(''CI_HB_PROXY'' \<mapsto> ''1'')) ''CI_HB_PROXY'')
   \<and> executes (run_suite (room_js (Map.empty(''CI_HB_PROXY'' \<mapsto> ''1''))))
         ''should create room (proxy)''
   \<and> skipped (run_suite (room_js (Map.empty(''CI_HB_PROXY'' \<mapsto> ''1''))))
         ''should create room (proxy)''
   \<and> \<not> calls_HBInit (run_suite (room_js (Map.empty(''CI_HB_PROXY'' \<mapsto> ''1''))))
         ''should create room (proxy)''
   \<and> executes (run_suite (part_000 (Map.empty(''CI_HB_PROXY'' \<mapsto> ''1''))))
         ''should create room (proxy)''
   \<and> \<not> skipped (run_suite (part_000 (Map.empty(''CI_HB_PROXY'' \<mapsto> ''1''))))
         ''should create room (proxy)''
   \<and> \<not> calls_HBInit (run_suite (part_000 (Map.empty(''CI_HB_PROXY'' \<mapsto> ''1''))))
         ''should create room (proxy)''
   \<and> skipped (run_suite (part_000 (Map.empty(''CI_HB_PROXY'' \<mapsto> ''1''))))
         ''should create room''
   \<and> delay_precedes 5000 Idle (run_suite (room_js (Map.empty(''CI_HB_PROXY'' \<mapsto> ''1''))))"
  using test_registration_by_environment [of "Map.empty(''CI_HB_PROXY'' \<mapsto> ''1'')"]
  by (simp add: truthy_def)

text \<open>
  With an empty environment no token is set, and the room-creation test of
  \<^verbatim>\<open>src/test/room.js\<close> executes and calls \<^verbatim>\<open>HBInit\<close>; it is not skipped.
\<close>

theorem room_js_runs_without_token:
  "executes (run_suite (room_js Map.empty)) ''should create room''
   \<and> calls_HBInit (run_suite (room_js Map.empty)) ''should create room''
   \<and> \<not> skipped (run_suite (room_js Map.empty)) ''should create room''
   \<and> \<not> truthy (Map.empty ''CI_HB_HEADLESS_TOKEN'')
   \<and> \<not> truthy (Map.empty ''TEST_HB_HEADLESS_TOKEN'')"
  by (simp add: run_suite_def room_js_def room_js_create_room_def
      room_js_create_room_proxy_def run_test_register_if executes_def skipped_def
      calls_HBInit_def truthy_def proxy_env_def js_or_def)

text \<open>
  With \<^verbatim>\<open>CI_HB_PROXY\<close> set to \<^verbatim>\<open>1\<close> and nothing else, the run of \<^verbatim>\<open>src/test/room.js\<close>: the
  room-creation test in full, then the delay, the proxy test's timeout, its
  \<^verbatim>\<open>this.skip()\<close> and the report that it is pending.
\<close>

lemma room_js_run_in_ci:
  "run_suite (room_js (Map.empty(''CI_HB_PROXY'' \<mapsto> ''1''))) =
     [ Hook (Delay 5000),
       Body ''should create room'' (SetTimeout 30000),
       Body ''should create room'' (RequireUncached ''../build/index''),
       Body ''should create room''
         (CallHBInit (base_config @ [(''token'', JUndefined)])),
       Body ''should create room'' AwaitRoomLink,
       Hook (Delay 5000),
       Body ''should create room (proxy)'' (SetTimeout 30000),
       Body ''should create room (proxy)'' SkipTest,
       Pending ''should create room (proxy)'' ]"
  by (simp add: run_suite_def room_js_def room_js_create_room_def
      room_js_create_room_proxy_def run_test_register_if truthy_def proxy_env_def
      token_env_def js_or_def js_string_def)

section \<open>Properties of the room behind the handle\<close>

lemma disc_field_apply_properties:
  "disc_field f (apply_properties d p) =
     (case partial_field f p of None \<Rightarrow> disc_field f d | Some v \<Rightarrow> v)"
  by (cases f) (auto simp: apply_properties_def pick_def split: option.splits)

lemma apply_only_x: "apply_properties d (only_x v) = d \<lparr> dpo_x := v \<rparr>"
  by (simp add: apply_properties_def only_x_def no_properties_def pick_def)

lemma valid_index_less: "valid_index i n \<Longrightarrow> nat \<lfloor>i\<rfloor> < n"
  unfolding valid_index_def by linarith

lemma disc_at_set:
  "disc_at st i = Some d \<Longrightarrow>
   disc_at (setDiscProperties st i p) i = Some (apply_properties d p)"
  by (auto simp: disc_at_def setDiscProperties_def valid_index_less split: if_splits)

lemma valid_index_nat_inj:
  "valid_index i n \<Longrightarrow> valid_index j n \<Longrightarrow> nat \<lfloor>i\<rfloor> = nat \<lfloor>j\<rfloor> \<Longrightarrow> i = j"
  unfolding valid_index_def
  by (metis int_nat_eq of_int_0_le_iff)

lemma disc_at_set_other:
  "j \<noteq> i \<Longrightarrow> disc_at (setDiscProperties st i p) j = disc_at st j"
proof (cases "disc_at st i")
  case None
  then show ?thesis by (simp add: setDiscProperties_def)
next
  case (Some d)
  assume ne: "j \<noteq> i"
  from Some have vi: "valid_index i (length (rs_discs st))"
    by (simp add: disc_at_def split: if_splits)
  show ?thesis
  proof (cases "valid_index j (length (rs_discs st))")
    case True
    with vi ne have "nat \<lfloor>i\<rfloor> \<noteq> nat \<lfloor>j\<rfloor>"
      using valid_index_nat_inj by blast
    with True Some show ?thesis
      by (simp add: disc_at_def setDiscProperties_def)
  next
    case False
    with Some show ?thesis
      by (simp add: disc_at_def setDiscProperties_def)
  qed
qed

lemma player_entry_update:
  "find (\<lambda>e. po_id (pe_player e) = pid) (update_player_disc pid p es) =
     map_option (\<lambda>e. e \<lparr> pe_disc := map_option (\<lambda>d. apply_properties d p) (pe_disc e) \<rparr>)
       (find (\<lambda>e. po_id (pe_player e) = pid) es)"
  by (induction es) auto

lemma player_entry_update_other:
  "q \<noteq> pid \<Longrightarrow> find (\<lambda>e. po_id (pe_player e) = q) (update_player_disc pid p es) =
     find (\<lambda>e. po_id (pe_player e) = q) es"
  by (induction es) auto

lemma player_disc_set:
  "getPlayerDiscProperties st pid = Returned (Some d) \<Longrightarrow>
   getPlayerDiscProperties (setPlayerDiscProperties st pid p) pid =
     Returned (Some (apply_properties d p))"
  by (auto simp: getPlayerDiscProperties_def setPlayerDiscProperties_def player_entry_def
      player_entry_update split: option.splits)

text \<open>
  Claim C1. For a disc whose full state \<open>d\<close> is known, \<^verbatim>\<open>setDiscProperties\<close> with a partial
  argument \<open>p\<close> followed by \<^verbatim>\<open>getDiscProperties\<close> gives a disc in which every member
  present in \<open>p\<close> has the value \<open>p\<close> gives it and every other member has its value in
  \<open>d\<close>; with \<^verbatim>\<open>{x: 5}\<close> the disc read back is \<open>d\<close> with \<^verbatim>\<open>x\<close> set to 5. The same holds for
  \<^verbatim>\<open>setPlayerDiscProperties\<close> and \<^verbatim>\<open>getPlayerDiscProperties\<close>. The discs at other indices and
  of other players are as before.
\<close>

theorem partial_update_frame:
  "(getDiscProperties st i = Returned (Some d) \<longrightarrow>
      getDiscProperties (setDiscProperties st i p) i = Returned (Some (apply_properties d p))
      \<and> getDiscProperties (setDiscProperties st i (only_x 5)) i =
          Returned (Some (d \<lparr> dpo_x := 5 \<rparr>)))
   \<and> (getPlayerDiscProperties st pid = Returned (Some d) \<longrightarrow>
      getPlayerDiscProperties (setPlayerDiscProperties st pid p) pid =
        Returned (Some (apply_properties d p))
      \<and> getPlayerDiscProperties (setPlayerDiscProperties st pid (only_x 5)) pid =
          Returned (Some (d \<lparr> dpo_x := 5 \<rparr>)))
   \<and> (\<forall>f. disc_field f (apply_properties d p) =
          (case partial_field f p of None \<Rightarrow> disc_field f d | Some v \<Rightarrow> v))
   \<and> (\<forall>j. j \<noteq> i \<longrightarrow> getDiscProperties (setDiscProperties st i p) j = getDiscProperties st j)
   \<and> (\<forall>q. q \<noteq> pid \<longrightarrow>
          getPlayerDiscProperties (setPlayerDiscProperties st pid p) q =
            getPlayerDiscProperties st q)"
proof (intro conjI impI allI)
  assume h: "getDiscProperties st i = Returned (Some d)"
  then have a: "disc_at st i = Some d" by (simp add: getDiscProperties_def)
  show "getDiscProperties (setDiscProperties st i p) i = Returned (Some (apply_properties d p))"
    using disc_at_set [OF a] by (simp add: getDiscProperties_def)
  show "getDiscProperties (setDiscProperties st i (only_x 5)) i =
          Returned (Some (d \<lparr> dpo_x := 5 \<rparr>))"
    using disc_at_set [OF a, of "only_x 5"] by (simp add: getDiscProperties_def apply_only_x)
next
  assume h: "getPlayerDiscProperties st pid = Returned (Some d)"
  show "getPlayerDiscProperties (setPlayerDiscProperties st pid p) pid =
        Returned (Some (apply_properties d p))"
    by (rule player_disc_set [OF h])
  show "getPlayerDiscProperties (setPlayerDiscProperties st pid (only_x 5)) pid =
          Returned (Some (d \<lparr> dpo_x := 5 \<rparr>))"
    using player_disc_set [OF h, of "only_x 5"] by (simp add: apply_only_x)
next
  fix f
  show "disc_field f (apply_properties d p) =
          (case partial_field f p of None \<Rightarrow> disc_field f d | Some v \<Rightarrow> v)"
    by (rule disc_field_apply_properties)
next
  fix j assume "j \<noteq> i"
  then show "getDiscProperties (setDiscProperties st i p) j = getDiscProperties st j"
    by (simp add: getDiscProperties_def disc_at_set_other)
next
  fix q assume "q \<noteq> pid"
  then show "getPlayerDiscProperties (setPlayerDiscProperties st pid p) q =
            getPlayerDiscProperties st q"
    by (simp add: getPlayerDiscProperties_def setPlayerDiscProperties_def player_entry_def
        player_entry_update_other)
qed

text \<open>
  The example room: its disc 0 and the disc of its player 1, updated with \<^verbatim>\<open>{x: 5}\<close>;
  disc 1 and, under an update for player 2, the disc of player 1 stay as they are.
\<close>

theorem partial_update_frame_witness:
  "getDiscProperties example_room 0 = Returned (Some example_disc)
   \<and> getPlayerDiscProperties example_room 1 = Returned (Some example_disc)
   \<and> getDiscProperties (setDiscProperties example_room 0 (only_x 5)) 0 =
       Returned (Some (example_disc \<lparr> dpo_x := 5 \<rparr>))
   \<and> getPlayerDiscProperties (setPlayerDiscProperties example_room 1 (only_x 5)) 1 =
       Returned (Some (example_disc \<lparr> dpo_x := 5 \<rparr>))
   \<and> dpo_x (example_disc \<lparr> dpo_x := 5 \<rparr>) = 5
   \<and> dpo_radius (example_disc \<lparr> dpo_x := 5 \<rparr>) = 10
   \<and> getDiscProperties (setDiscProperties example_room 0 (only_x 5)) 1 =
       Returned (Some (example_disc \<lparr> dpo_x := 100 \<rparr>))
   \<and> getPlayerDiscProperties (setPlayerDiscProperties example_room 2 (only_x 5)) 1 =
       Returned (Some example_disc)"
proof -
  have h1: "getDiscProperties example_room 0 = Returned (Some example_disc)"
    by (simp add: getDiscProperties_def disc_at_def valid_index_def example_room_def)
  have h2: "getPlayerDiscProperties example_room 1 = Returned (Some example_disc)"
    by (simp add: getPlayerDiscProperties_def player_entry_def example_room_def
        example_player_def)
  have h3: "dpo_x (example_disc \<lparr> dpo_x := 5 \<rparr>) = 5
      \<and> dpo_radius (example_disc \<lparr> dpo_x := 5 \<rparr>) = 10"
    by (simp add: example_disc_def)
  have h4: "getDiscProperties example_room 1 =
      Returned (Some (example_disc \<lparr> dpo_x := 100 \<rparr>))"
    by (simp add: getDiscProperties_def disc_at_def valid_index_def example_room_def)
  have h5: "(1::number) \<noteq> 0" and h6: "(1::number) \<noteq> 2"
    by simp_all
  show ?thesis
    using partial_update_frame [where st = example_room and i = 0 and d = example_disc
        and pid = 1 and p = "only_x 5"]
      partial_update_frame [where st = example_room and i = 0 and d = example_disc
        and pid = 2 and p = "only_x 5"]
      h1 h2 h3 h4 h5 h6
    by metis
qed

lemma accessors_nullable:
  "result_type ''RoomObject'' ''getPlayer'' = Some (TUnion [TRef ''PlayerObject'', TNull])
   \<and> result_type ''RoomObject'' ''getDiscProperties'' =
       Some (TUnion [TRef ''DiscPropertiesObject'', TNull])
   \<and> result_type ''RoomObject'' ''getPlayerDiscProperties'' =
       Some (TUnion [TRef ''DiscPropertiesObject'', TNull])
   \<and> result_type ''RoomObject'' ''getInputObject'' = Some (TUnion [TRef ''InputObject'', TNull])"
  by (intro conjI; code_simp)

lemma find_absent: "x \<notin> set (map f xs) \<Longrightarrow> find (\<lambda>e. f e = x) xs = None"
  by (induction xs) auto

text \<open>
  Claim C2. For an identifier of no connected player, \<^verbatim>\<open>getPlayer\<close>,
  \<^verbatim>\<open>getPlayerDiscProperties\<close> and \<^verbatim>\<open>getInputObject\<close> return \<^verbatim>\<open>null\<close>; for a number that is no
  index of a disc, \<^verbatim>\<open>getDiscProperties\<close> returns \<^verbatim>\<open>null\<close>. None of the four throws, for any
  identifier, and the result type each one is declared with admits \<^verbatim>\<open>null\<close>.
\<close>

theorem absent_is_null:
  "(pid \<notin> set (map (\<lambda>e. po_id (pe_player e)) (rs_players st)) \<longrightarrow>
      getPlayer st pid = Returned None
      \<and> getPlayerDiscProperties st pid = Returned None
      \<and> getInputObject st pid = Returned None)
   \<and> (\<not> valid_index i (length (rs_discs st)) \<longrightarrow> getDiscProperties st i = Returned None)
   \<and> (\<forall>q k msg. getPlayer st q \<noteq> Threw msg
        \<and> getDiscProperties st k \<noteq> Threw msg
        \<and> getPlayerDiscProperties st q \<noteq> Threw msg
        \<and> getInputObject st q \<noteq> Threw msg)
   \<and> list_all (\<lambda>n. case result_type ''RoomObject'' n of
                      None \<Rightarrow> False | Some t \<Rightarrow> nullable t)
        [''getPlayer'', ''getDiscProperties'', ''getPlayerDiscProperties'', ''getInputObject'']"
proof (intro conjI impI allI)
  assume "pid \<notin> set (map (\<lambda>e. po_id (pe_player e)) (rs_players st))"
  then have n: "player_entry st pid = None"
    unfolding player_entry_def by (rule find_absent)
  show "getPlayer st pid = Returned None"
    by (simp add: getPlayer_def n)
  show "getPlayerDiscProperties st pid = Returned None"
    by (simp add: getPlayerDiscProperties_def n)
  show "getInputObject st pid = Returned None"
    by (simp add: getInputObject_def n)
next
  assume "\<not> valid_index i (length (rs_discs st))"
  then show "getDiscProperties st i = Returned None"
    by (simp add: getDiscProperties_def disc_at_def)
next
  fix q k msg
  show "getPlayer st q \<noteq> Threw msg" by (simp add: getPlayer_def)
  show "getDiscProperties st k \<noteq> Threw msg" by (simp add: getDiscProperties_def)
  show "getPlayerDiscProperties st q \<noteq> Threw msg" by (simp add: getPlayerDiscProperties_def)
  show "getInputObject st q \<noteq> Threw msg" by (simp add: getInputObject_def)
next
  show "list_all (\<lambda>n. case result_type ''RoomObject'' n of
                      None \<Rightarrow> False | Some t \<Rightarrow> nullable t)
        [''getPlayer'', ''getDiscProperties'', ''getPlayerDiscProperties'', ''getInputObject'']"
    using accessors_nullable by simp
qed

text \<open>The example room has no player 2 and no disc 5; its player 1 is found.\<close>

theorem absent_is_null_witness:
  "2 \<notin> set (map (\<lambda>e. po_id (pe_player e)) (rs_players example_room))
   \<and> \<not> valid_index 5 (length (rs_discs example_room))
   \<and> getPlayer example_room 2 = Returned None
   \<and> getPlayerDiscProperties example_room 2 = Returned None
   \<and> getInputObject example_room 2 = Returned None
   \<and> getDiscProperties example_room 5 = Returned None
   \<and> getPlayer example_room 1 = Returned (Some example_player)"
proof -
  have h1: "2 \<notin> set (map (\<lambda>e. po_id (pe_player e)) (rs_players example_room))"
    by (simp add: example_room_def example_player_def)
  have h2: "\<not> valid_index 5 (length (rs_discs example_room))"
    by (simp add: example_room_def valid_index_def)
  have h3: "getPlayer example_room 1 = Returned (Some example_player)"
    by (simp add: getPlayer_def player_entry_def example_room_def example_player_def)
  show ?thesis
    using absent_is_null [where st = example_room and pid = 2 and i = 5] h1 h2 h3
    by blast
qed

section \<open>Properties of the stadium file\<close>

lemma check_segments_None:
  "(check_segments n k gs = None) = list_all (segment_in_range n) gs"
  by (induction gs arbitrary: k) auto

lemma check_joints_None:
  "(check_joints n k js = None) = list_all (joint_in_range n) js"
  by (induction js arbitrary: k) auto

lemma validate_stadium_Inr:
  "(validate_stadium s = Inr s') =
     (s' = s \<and> list_all (segment_in_range (length (so_vertexes s))) (so_segments s)
      \<and> list_all (joint_in_range (length (so_discs s))) (so_joints s))"
  unfolding validate_stadium_def
  using check_segments_None [of "length (so_vertexes s)" 0 "so_segments s"]
    check_joints_None [of "length (so_discs s)" 0 "so_joints s"]
  by (auto split: option.splits)

text \<open>
  Claim C4. In every stadium that passes the validation at load time, \<^verbatim>\<open>v0\<close> and \<^verbatim>\<open>v1\<close> of
  each segment are positions in \<^verbatim>\<open>vertexes\<close> and \<^verbatim>\<open>d0\<close> and \<^verbatim>\<open>d1\<close> of each joint are positions
  in \<^verbatim>\<open>discs\<close>; a stadium with one of these indices out of range is rejected with an error
  and not accepted.
\<close>

theorem stadium_indices_validated:
  "(validate_stadium s = Inr s' \<longrightarrow>
      s' = s
      \<and> (\<forall>g \<in> set (so_segments s).
            valid_index (sg_v0 g) (length (so_vertexes s))
            \<and> valid_index (sg_v1 g) (length (so_vertexes s)))
      \<and> (\<forall>j \<in> set (so_joints s).
            valid_index (jt_d0 j) (length (so_discs s))
            \<and> valid_index (jt_d1 j) (length (so_discs s))))
   \<and> ((\<exists>g \<in> set (so_segments s).
          \<not> valid_index (sg_v0 g) (length (so_vertexes s))
          \<or> \<not> valid_index (sg_v1 g) (length (so_vertexes s)))
       \<or> (\<exists>j \<in> set (so_joints s).
          \<not> valid_index (jt_d0 j) (length (so_discs s))
          \<or> \<not> valid_index (jt_d1 j) (length (so_discs s)))
       \<longrightarrow> (\<exists>e. validate_stadium s = Inl e))"
proof (intro conjI impI)
  assume "validate_stadium s = Inr s'"
  then have a: "s' = s"
    and b: "list_all (segment_in_range (length (so_vertexes s))) (so_segments s)"
    and c: "list_all (joint_in_range (length (so_discs s))) (so_joints s)"
    by (simp_all add: validate_stadium_Inr)
  show "s' = s" by (rule a)
  show "\<forall>g \<in> set (so_segments s).
            valid_index (sg_v0 g) (length (so_vertexes s))
            \<and> valid_index (sg_v1 g) (length (so_vertexes s))"
    using b by (simp add: list_all_iff segment_in_range_def)
  show "\<forall>j \<in> set (so_joints s).
            valid_index (jt_d0 j) (length (so_discs s))
            \<and> valid_index (jt_d1 j) (length (so_discs s))"
    using c by (simp add: list_all_iff joint_in_range_def)
next
  assume bad: "(\<exists>g \<in> set (so_segments s).
          \<not> valid_index (sg_v0 g) (length (so_vertexes s))
          \<or> \<not> valid_index (sg_v1 g) (length (so_vertexes s)))
       \<or> (\<exists>j \<in> set (so_joints s).
          \<not> valid_index (jt_d0 j) (length (so_discs s))
          \<or> \<not> valid_index (jt_d1 j) (length (so_discs s)))"
  have "validate_stadium s \<noteq> Inr s'" for s'
    using bad unfolding validate_stadium_Inr list_all_iff segment_in_range_def
      joint_in_range_def by blast
  then show "\<exists>e. validate_stadium s = Inl e"
    by (cases "validate_stadium s") auto
qed

text \<open>
  The example stadium is accepted; the one whose segment has \<^verbatim>\<open>v1 = 2\<close>, with two
  vertexes, is rejected at segment 0.
\<close>

theorem stadium_indices_validated_witness:
  "validate_stadium example_stadium = Inr example_stadium
   \<and> valid_index (sg_v0 example_segment) (length (so_vertexes example_stadium))
   \<and> valid_index (sg_v1 example_segment) (length (so_vertexes example_stadium))
   \<and> valid_index (jt_d0 example_joint) (length (so_discs example_stadium))
   \<and> valid_index (jt_d1 example_joint) (length (so_discs example_stadium))
   \<and> \<not> valid_index (sg_v1 (example_segment \<lparr> sg_v1 := 2 \<rparr>)) (length (so_vertexes bad_stadium))
   \<and> (\<exists>e. validate_stadium bad_stadium = Inl e)
   \<and> validate_stadium bad_stadium = Inl (SegmentVertexOutOfRange 0)"
proof -
  have ok: "validate_stadium example_stadium = Inr example_stadium"
    by (simp add: validate_stadium_def example_stadium_def example_segment_def
        example_joint_def segment_in_range_def joint_in_range_def valid_index_def)
  have g: "example_segment \<in> set (so_segments example_stadium)"
    and j: "example_joint \<in> set (so_joints example_stadium)"
    by (simp_all add: example_stadium_def)
  have bad: "\<not> valid_index (sg_v1 (example_segment \<lparr> sg_v1 := 2 \<rparr>))
      (length (so_vertexes bad_stadium))"
    by (simp add: bad_stadium_def example_stadium_def valid_index_def)
  have mem: "example_segment \<lparr> sg_v1 := 2 \<rparr> \<in> set (so_segments bad_stadium)"
    by (simp add: bad_stadium_def)
  have first: "validate_stadium bad_stadium = Inl (SegmentVertexOutOfRange 0)"
    by (simp add: validate_stadium_def bad_stadium_def example_stadium_def
        example_segment_def segment_in_range_def valid_index_def)
  show ?thesis
    using stadium_indices_validated [of example_stadium example_stadium]
      stadium_indices_validated [of bad_stadium] ok g j bad mem first
    by blast
qed

lemma is_hex6_not_transparent: "is_hex6 s \<Longrightarrow> s \<noteq> ''transparent''"
  by (auto simp: is_hex6_def)

lemma color_types:
  "map (\<lambda>(i, m). (i, m_name m, m_optional m)) color_members =
     [ (''Segment'', ''color'', True), (''Disc'', ''color'', True),
       (''Joint'', ''color'', True), (''BackgroundObject'', ''color'', True) ]
   \<and> find_alias module_scope ''Color'' =
       Some (TUnion [TLit ''transparent'', TString, TTuple [TNumber, TNumber, TNumber]])"
  by (intro conjI; code_simp)

text \<open>
  Claim C7. The members of type \<^verbatim>\<open>Color\<close> in the stadium's interfaces are \<^verbatim>\<open>color\<close> of
  \<^verbatim>\<open>Segment\<close>, \<^verbatim>\<open>Disc\<close>, \<^verbatim>\<open>Joint\<close> and \<^verbatim>\<open>BackgroundObject\<close>, and \<^verbatim>\<open>Color\<close> is the union of the
  literal \<^verbatim>\<open>transparent\<close>, a string and a triple of numbers. Each of the three forms, the
  literal, a string of six hexadecimal digits and a triple, is read as a colour, and a
  colour of one of the three forms that is written and read back is the same colour, in
  each of the four members.
\<close>

theorem color_forms_round_trip:
  "map (\<lambda>(i, m). (i, m_name m, m_optional m)) color_members =
     [ (''Segment'', ''color'', True), (''Disc'', ''color'', True),
       (''Joint'', ''color'', True), (''BackgroundObject'', ''color'', True) ]
   \<and> find_alias module_scope ''Color'' =
       Some (TUnion [TLit ''transparent'', TString, TTuple [TNumber, TNumber, TNumber]])
   \<and> read_color (JStr ''transparent'') = Some Transparent
   \<and> (is_hex6 s \<longrightarrow> read_color (JStr s) = Some (ColorString s))
   \<and> read_color (JArr [JNum r, JNum g, JNum b]) = Some (RGB r g b)
   \<and> (color_form c \<longrightarrow>
        read_color (write_color c) = Some c
        \<and> sg_color (seg \<lparr> sg_color := read_color (write_color c) \<rparr>) = Some c
        \<and> dc_color (disc \<lparr> dc_color := read_color (write_color c) \<rparr>) = Some c
        \<and> jt_color (joint \<lparr> jt_color := read_color (write_color c) \<rparr>) = Some c
        \<and> bg_color (bg \<lparr> bg_color := read_color (write_color c) \<rparr>) = Some c)"
proof -
  have rt: "read_color (write_color c) = Some c" if "color_form c"
    using that by (cases c) (auto dest: is_hex6_not_transparent)
  show ?thesis
    using color_types rt by (auto dest: is_hex6_not_transparent)
qed

text \<open>The three forms at \<^verbatim>\<open>FF0000\<close>, \<^verbatim>\<open>[0, 200, 0]\<close> and \<^verbatim>\<open>transparent\<close>.\<close>

theorem color_forms_round_trip_witness:
  "is_hex6 ''FF0000''
   \<and> read_color (JStr ''FF0000'') = Some (ColorString ''FF0000'')
   \<and> color_form (ColorString ''FF0000'')
   \<and> read_color (write_color (ColorString ''FF0000'')) = Some (ColorString ''FF0000'')
   \<and> color_form (RGB 0 200 0)
   \<and> read_color (write_color (RGB 0 200 0)) = Some (RGB 0 200 0)
   \<and> color_form Transparent
   \<and> read_color (write_color Transparent) = Some Transparent
   \<and> sg_color (example_segment \<lparr> sg_color := read_color (write_color (RGB 0 200 0)) \<rparr>) =
       Some (RGB 0 200 0)"
proof -
  have h: "is_hex6 ''FF0000''"
    by (simp add: is_hex6_def is_hex_digit_def)
  then have f1: "color_form (ColorString ''FF0000'')" by simp
  have f2: "color_form (RGB 0 200 0)" and f3: "color_form Transparent" by simp_all
  show ?thesis
    using color_forms_round_trip [where s = "''FF0000''" and c = "ColorString ''FF0000''"
        and r = 0 and g = 200 and b = 0 and seg = example_segment
        and disc = example_stadium_disc and joint = example_joint and bg = example_background]
      color_forms_round_trip [where s = "''FF0000''" and c = "RGB 0 200 0"
        and r = 0 and g = 200 and b = 0 and seg = example_segment
        and disc = example_stadium_disc and joint = example_joint and bg = example_background]
      color_forms_round_trip [where s = "''FF0000''" and c = Transparent
        and r = 0 and g = 200 and b = 0 and seg = example_segment
        and disc = example_stadium_disc and joint = example_joint and bg = example_background]
      h f1 f2 f3
    by blast
qed

end
